theory Spec2Isabelle
  imports Complex_Main "HOL-Library.AList"
begin

text \<open>
  A model of the data-loading and fallback layer of the analytics dashboard: the two query
  executors and their eleven dataset loaders (\<open>database_connections\<close>), the two bundle
  loaders with their mock data (\<open>app.py\<close>), and the two page sections of Pipeline A that
  compute on a table, the latest-week pie chart and the country-code mapping. Definitions
  come first, in the order of the source; the results follow.
\<close>

section \<open>Tables\<close>

text \<open>
  The dashboard handles pandas data frames. A frame is modelled row-major: the column
  labels in order, and the rows, each a list of cells in column order. A cell is one of
  the scalar kinds the program puts into a frame; \<open>NaN\<close> is the missing value.

  Timestamps are kept symbolic: the program only ever builds them relative to the moment
  of the call (\<open>pd.Timestamp.now() - pd.DateOffset(...)\<close>, \<open>pd.date_range(end=now, ...)\<close>),
  and no calendar arithmetic is interpreted here. Floats drawn by \<open>np.random.uniform\<close> are
  idealised as rationals. Where versions of pandas differ, the model follows pandas 2.
\<close>

datatype tstamp =
    Now
  | NowMinusMonths int
  | NowMinusDays int
  | PeriodEnd string nat

datatype cell =
    IntC int
  | FloatC rat
  | StrC string
  | BoolC bool
  | TimeC tstamp
  | NaN

record dataframe =
  columns :: "string list"
  rows :: "cell list list"

text \<open>\<open>pd.DataFrame()\<close>: no columns and no rows.\<close>

definition pd_DataFrame :: dataframe where
  "pd_DataFrame = \<lparr>columns = [], rows = []\<rparr>"

text \<open>\<open>df.empty\<close>: true when either axis has length zero.\<close>

definition df_empty :: "dataframe \<Rightarrow> bool" where
  "df_empty df = (columns df = [] \<or> rows df = [])"

text \<open>\<open>len(df)\<close>: the number of rows.\<close>

definition len :: "dataframe \<Rightarrow> nat" where
  "len df = length (rows df)"

section \<open>Exceptions\<close>

text \<open>
  A computation that may raise returns \<open>Inl\<close> of the exception or \<open>Inr\<close> of its value. The
  exceptions the modelled code raises itself are \<open>KeyError\<close> (a missing label), \<open>IndexError\<close>
  (\<open>iloc\<close> on a frame without rows) and \<open>AttributeError\<close> (the \<open>.str\<close> accessor on labels that
  are not strings). \<open>BaseException m\<close> is an exception that is no instance of \<open>Exception\<close>,
  with \<open>str(e) = m\<close>: \<open>KeyboardInterrupt\<close>, \<open>SystemExit\<close>, or the signals by which
  Streamlit stops or reruns a script. No handler of the program catches it.
\<close>

datatype py_error = KeyError string | IndexError | AttributeError | BaseException string

definition and_then :: "py_error + 'a \<Rightarrow> ('a \<Rightarrow> py_error + 'b) \<Rightarrow> py_error + 'b" where
  "and_then m f = (case m of Inl e \<Rightarrow> Inl e | Inr x \<Rightarrow> f x)"

section \<open>User interface events\<close>

text \<open>
  What a call shows on the page is collected in a log, in order. Only the elements the
  modelled code emits are represented. The messages are the source's, without their
  leading pictograph. \<open>PieChart title names values hole\<close> is \<open>st.plotly_chart\<close> of a
  \<open>px.pie\<close> figure; \<open>Dataframe index df\<close> is \<open>st.dataframe\<close> of a frame with the given
  row labels.
\<close>

datatype ui =
    StError string
  | StWarning string
  | PieChart string "string list" "cell list" rat
  | Dataframe "cell list" dataframe

section \<open>Query executors\<close>

text \<open>
  \<open>st.connection(name, type=...)\<close> either raises or hands back a connection, whose
  \<open>query(query, params=params)\<close> either raises or returns a frame (or \<open>None\<close>).
  \<open>RaisesException m\<close> is the raise of an instance of \<open>Exception\<close> with \<open>str(e) = m\<close>;
  \<open>RaisesBaseException m\<close> is the raise of an exception that is no instance of \<open>Exception\<close>.
\<close>

datatype 'a outcome = RaisesException string | RaisesBaseException string | Returns 'a

type_synonym 'p connection = "string \<Rightarrow> 'p option \<Rightarrow> dataframe option outcome"

type_synonym 'p st_connection = "string \<Rightarrow> string option \<Rightarrow> 'p connection outcome"

text \<open>
  The body of the \<open>try\<close> block of \<open>execute_redshift_query\<close>: what is raised inside it, or
  the value its \<open>return\<close> statements give. The handler is \<open>except Exception as e\<close>: it turns
  an instance of \<open>Exception\<close> into an error on the page and the value \<open>None\<close>, and lets any
  other exception through.
\<close>

definition redshift_try_body ::
  "'p st_connection \<Rightarrow> string \<Rightarrow> 'p option \<Rightarrow> dataframe outcome" where
  "redshift_try_body st_conn query params =
     (case st_conn ''redshift'' (Some ''sql'') of
        RaisesException e \<Rightarrow> RaisesException e
      | RaisesBaseException e \<Rightarrow> RaisesBaseException e
      | Returns conn \<Rightarrow>
          (case conn query params of
             RaisesException e \<Rightarrow> RaisesException e
           | RaisesBaseException e \<Rightarrow> RaisesBaseException e
           | Returns None \<Rightarrow> Returns pd_DataFrame
           | Returns (Some df) \<Rightarrow>
               if \<not> df_empty df then Returns df else Returns pd_DataFrame))"

definition execute_redshift_query ::
  "'p st_connection \<Rightarrow> string \<Rightarrow> 'p option \<Rightarrow> py_error + dataframe option \<times> ui list" where
  "execute_redshift_query st_conn query params =
     (case redshift_try_body st_conn query params of
        Returns df \<Rightarrow> Inr (Some df, [])
      | RaisesException e \<Rightarrow>
          Inr (None, [StError (''Query execution failed on Redshift: '' @ e)])
      | RaisesBaseException e \<Rightarrow> Inl (BaseException e))"

definition snowflake_try_body ::
  "'p st_connection \<Rightarrow> string \<Rightarrow> 'p option \<Rightarrow> dataframe outcome" where
  "snowflake_try_body st_conn query params =
     (case st_conn ''snowflake'' None of
        RaisesException e \<Rightarrow> RaisesException e
      | RaisesBaseException e \<Rightarrow> RaisesBaseException e
      | Returns conn \<Rightarrow>
          (case conn query params of
             RaisesException e \<Rightarrow> RaisesException e
           | RaisesBaseException e \<Rightarrow> RaisesBaseException e
           | Returns None \<Rightarrow> Returns pd_DataFrame
           | Returns (Some df) \<Rightarrow>
               if \<not> df_empty df then Returns df else Returns pd_DataFrame))"

definition execute_snowflake_query ::
  "'p st_connection \<Rightarrow> string \<Rightarrow> 'p option \<Rightarrow> py_error + dataframe option \<times> ui list" where
  "execute_snowflake_query st_conn query params =
     (case snowflake_try_body st_conn query params of
        Returns df \<Rightarrow> Inr (Some df, [])
      | RaisesException e \<Rightarrow>
          Inr (None, [StError (''Query execution failed on Snowflake: '' @ e)])
      | RaisesBaseException e \<Rightarrow> Inl (BaseException e))"





section \<open>Dataset loaders\<close>

text \<open>
  Each loader passes one fixed SQL text to its executor, with no parameters. The texts are
  the source's with runs of white space collapsed to one blank; the SQL literal for the
  empty string is spliced in, since it cannot be written inside a string literal here.
\<close>

definition sql_empty_string :: string where
  "sql_empty_string = [CHR 0x27, CHR 0x27]"

definition fda_volume_analysis_query :: string where
  "fda_volume_analysis_query =
     ''select COUNT(*) as total_reports, SUM(case when serious = '1' then 1 else 0 end) as serious_reports, SUM(case when seriousnessdeath = '1' then 1 else 0 end) as fatal_reports, COUNT(distinct occurcountry) as countries_affected, DATE_TRUNC('month', receivedate) as report_month from public.dim_reports group by DATE_TRUNC('month', receivedate) order by report_month LIMIT 1000''"

definition load_fda_volume_analysis :: "'p st_connection \<Rightarrow> py_error + dataframe option \<times> ui list" where
  "load_fda_volume_analysis st_conn = execute_redshift_query st_conn fda_volume_analysis_query None"

definition top_drugs_analysis_query :: string where
  "top_drugs_analysis_query =
     ''SELECT d.medicinalproduct, d.generic_name, COUNT(*) as report_count, SUM(CASE WHEN fr.reactionoutcome = '1' THEN 1 ELSE 0 END) as recovered_count, SUM(CASE WHEN fr.reactionoutcome = '5' THEN 1 ELSE 0 END) as fatal_count, AVG(p.patient_age) as avg_age, SUM(CASE WHEN p.patient_sex = '1' THEN 1 ELSE 0 END) as male_count, SUM(CASE WHEN p.patient_sex = '2' THEN 1 ELSE 0 END) as female_count FROM public.fact_drugs d JOIN public.dim_reports p ON d.safetyreportid = p.safetyreportid LEFT JOIN public.fact_reactions fr ON d.safetyreportid = fr.safetyreportid WHERE d.medicinalproduct IS NOT NULL AND d.medicinalproduct != '' @ sql_empty_string @ '' GROUP BY d.medicinalproduct, d.generic_name ORDER BY report_count DESC LIMIT 10''"

definition load_top_drugs_analysis :: "'p st_connection \<Rightarrow> py_error + dataframe option \<times> ui list" where
  "load_top_drugs_analysis st_conn = execute_redshift_query st_conn top_drugs_analysis_query None"

definition global_adverse_distribution_query :: string where
  "global_adverse_distribution_query =
     ''SELECT occurcountry, COUNT(*) as report_count, SUM(CASE WHEN serious = '1' THEN 1 ELSE 0 END) as serious_reports, SUM(CASE WHEN seriousnessdeath = '1' THEN 1 ELSE 0 END) as fatal_reports, COUNT(DISTINCT CASE WHEN serious = '1' THEN safetyreportid END) as unique_serious_reports FROM public.dim_reports WHERE occurcountry IS NOT NULL AND occurcountry != '' @ sql_empty_string @ '' GROUP BY occurcountry ORDER BY report_count DESC LIMIT 20''"

definition load_global_adverse_distribution :: "'p st_connection \<Rightarrow> py_error + dataframe option \<times> ui list" where
  "load_global_adverse_distribution st_conn = execute_redshift_query st_conn global_adverse_distribution_query None"

definition fda_safety_trends_query :: string where
  "fda_safety_trends_query =
     ''select receivedate, COUNT(*) as total_reports, SUM(case when serious = '1' then 1 else 0 end) as serious_reports, SUM(case when seriousnessdeath = '1' then 1 else 0 end) as fatal_reports, SUM(case when seriousnesshospitalization = '1' then 1 else 0 end) as hospitalization_reports from public.dim_reports group by receivedate ORDER BY receivedate DESC LIMIT 500''"

definition load_fda_safety_trends :: "'p st_connection \<Rightarrow> py_error + dataframe option \<times> ui list" where
  "load_fda_safety_trends st_conn = execute_redshift_query st_conn fda_safety_trends_query None"

definition top_suspect_drugs_query :: string where
  "top_suspect_drugs_query =
     ''SELECT d.medicinalproduct, d.generic_name, d.drugcharacterization, COUNT(*) as report_count, SUM(CASE WHEN fr.reactionoutcome = '1' THEN 1 ELSE 0 END) as recovered_count, SUM(CASE WHEN fr.reactionoutcome = '5' THEN 1 ELSE 0 END) as fatal_count, COUNT(DISTINCT d.safetyreportid) as unique_reports FROM public.fact_drugs d LEFT JOIN public.fact_reactions fr ON d.safetyreportid = fr.safetyreportid WHERE d.drugcharacterization = '1' -- Suspect drugs only AND d.medicinalproduct IS NOT NULL AND d.medicinalproduct != '' @ sql_empty_string @ '' GROUP BY d.medicinalproduct, d.generic_name, d.drugcharacterization ORDER BY report_count DESC LIMIT 10''"

definition load_top_suspect_drugs :: "'p st_connection \<Rightarrow> py_error + dataframe option \<times> ui list" where
  "load_top_suspect_drugs st_conn = execute_redshift_query st_conn top_suspect_drugs_query None"

definition executive_dashboard_data_query :: string where
  "executive_dashboard_data_query =
     ''SELECT * FROM HEALTHCARE_INSURANCE_DB.ANALYTICS.VW_EXECUTIVE_DASHBOARD ORDER BY MONTH_DATE DESC LIMIT 1000''"

definition load_executive_dashboard_data :: "'p st_connection \<Rightarrow> py_error + dataframe option \<times> ui list" where
  "load_executive_dashboard_data st_conn = execute_snowflake_query st_conn executive_dashboard_data_query None"

definition patient_demographics_data_query :: string where
  "patient_demographics_data_query =
     ''SELECT * FROM HEALTHCARE_INSURANCE_DB.ANALYTICS.VW_PATIENT_DEMOGRAPHICS LIMIT 5000''"

definition load_patient_demographics_data :: "'p st_connection \<Rightarrow> py_error + dataframe option \<times> ui list" where
  "load_patient_demographics_data st_conn = execute_snowflake_query st_conn patient_demographics_data_query None"

definition encounter_analysis_data_query :: string where
  "encounter_analysis_data_query =
     ''SELECT * FROM HEALTHCARE_INSURANCE_DB.ANALYTICS.VW_ENCOUNTER_ANALYSIS WHERE ENCOUNTER_DATE >= DATEADD(year, -2, CURRENT_DATE()) LIMIT 10000''"

definition load_encounter_analysis_data :: "'p st_connection \<Rightarrow> py_error + dataframe option \<times> ui list" where
  "load_encounter_analysis_data st_conn = execute_snowflake_query st_conn encounter_analysis_data_query None"

definition claims_management_data_query :: string where
  "claims_management_data_query =
     ''SELECT * FROM HEALTHCARE_INSURANCE_DB.ANALYTICS.VW_CLAIMS_MANAGEMENT WHERE SERVICE_DATE >= DATEADD(year, -2, CURRENT_DATE()) LIMIT 5000''"

definition load_claims_management_data :: "'p st_connection \<Rightarrow> py_error + dataframe option \<times> ui list" where
  "load_claims_management_data st_conn = execute_snowflake_query st_conn claims_management_data_query None"

definition financial_insights_data_query :: string where
  "financial_insights_data_query =
     ''SELECT * FROM HEALTHCARE_INSURANCE_DB.ANALYTICS.VW_FINANCIAL_INSIGHTS LIMIT 5000''"

definition load_financial_insights_data :: "'p st_connection \<Rightarrow> py_error + dataframe option \<times> ui list" where
  "load_financial_insights_data st_conn = execute_snowflake_query st_conn financial_insights_data_query None"

definition geographic_analysis_data_query :: string where
  "geographic_analysis_data_query =
     ''SELECT * FROM HEALTHCARE_INSURANCE_DB.ANALYTICS.VW_GEOGRAPHIC_ANALYSIS ORDER BY PATIENT_COUNT DESC LIMIT 1000''"

definition load_geographic_analysis_data :: "'p st_connection \<Rightarrow> py_error + dataframe option \<times> ui list" where
  "load_geographic_analysis_data st_conn = execute_snowflake_query st_conn geographic_analysis_data_query None"

section \<open>Random draws and the clock\<close>

text \<open>
  The global NumPy generator is an explicit supply of raw draws: a draw reads the head of
  the supply and leaves its tail. The three NumPy calls the program makes are mapped onto
  a raw draw. Every call site of \<open>randint\<close> and \<open>uniform\<close> passes constants with
  \<open>low < high\<close>, and every \<open>choice\<close> a non-empty literal list.
\<close>

type_synonym rng = "nat \<Rightarrow> nat"

definition next_raw :: "rng \<Rightarrow> nat \<times> rng" where
  "next_raw g = (g 0, \<lambda>i. g (Suc i))"

text \<open>\<open>np.random.randint(low, high)\<close>: an integer in \<open>[low, high)\<close>.\<close>

definition randint :: "int \<Rightarrow> int \<Rightarrow> rng \<Rightarrow> int \<times> rng" where
  "randint low high g = (case next_raw g of (n, g') \<Rightarrow> (low + int n mod (high - low), g'))"

text \<open>\<open>np.random.uniform(low, high)\<close>: a number in \<open>[low, high)\<close>.\<close>

definition uniform :: "rat \<Rightarrow> rat \<Rightarrow> rng \<Rightarrow> rat \<times> rng" where
  "uniform low high g =
     (case next_raw g of
        (n, g') \<Rightarrow> (low + (high - low) * (of_nat (n mod 2 ^ 53) / 2 ^ 53), g'))"

text \<open>\<open>np.random.choice(options)\<close>: one element of the list.\<close>

definition choice :: "string list \<Rightarrow> rng \<Rightarrow> string \<times> rng" where
  "choice options g = (case next_raw g of (n, g') \<Rightarrow> (options ! (n mod length options), g'))"

text \<open>
  \<open>pd.Timestamp.now()\<close> is read many times during one load; the model reads one clock for
  the whole load, of which only the year and the month are ever inspected.
\<close>

record clock =
  now_year :: int
  now_month :: int

text \<open>
  \<open>pd.date_range(end=now, periods=n, freq=f)\<close>: the \<open>n\<close> most recent period ends, oldest
  first; \<open>PeriodEnd f k\<close> is the one \<open>k\<close> periods before the latest.
\<close>

definition date_range :: "nat \<Rightarrow> string \<Rightarrow> tstamp list" where
  "date_range periods freq = map (\<lambda>k. PeriodEnd freq (periods - 1 - k)) [0..<periods]"

section \<open>Building frames from records\<close>

text \<open>
  A dict literal is written as its items in source order, each value a generator that may
  draw. Python evaluates the values left to right; a key written twice keeps its first
  position and its last value.
\<close>

type_synonym gen = "rng \<Rightarrow> cell \<times> rng"

type_synonym py_dict = "(string \<times> cell) list"

fun eval_items :: "(string \<times> gen) list \<Rightarrow> rng \<Rightarrow> (string \<times> cell) list \<times> rng" where
  "eval_items [] g = ([], g)"
| "eval_items ((k, f) # items) g =
     (case f g of
        (v, g1) \<Rightarrow> (case eval_items items g1 of (kvs, g2) \<Rightarrow> ((k, v) # kvs, g2)))"

definition dict_of_items :: "(string \<times> cell) list \<Rightarrow> py_dict" where
  "dict_of_items kvs = foldl (\<lambda>d (k, v). AList.update k v d) [] kvs"

text \<open>
  The loop \<open>for x in xs: data.append({...})\<close>: one dict per element, the generator state
  threaded through.
\<close>

fun append_records :: "('a \<Rightarrow> (string \<times> gen) list) \<Rightarrow> 'a list \<Rightarrow> rng \<Rightarrow> py_dict list \<times> rng" where
  "append_records row [] g = ([], g)"
| "append_records row (x # xs) g =
     (case eval_items (row x) g of
        (kvs, g1) \<Rightarrow>
          (case append_records row xs g1 of (ds, g2) \<Rightarrow> (dict_of_items kvs # ds, g2)))"

text \<open>
  \<open>pd.DataFrame(list_of_dicts)\<close>: the columns are the keys in order of first appearance
  over the records, and a record lacking a key gets \<open>NaN\<close> there.
\<close>

definition add_key :: "string \<Rightarrow> string list \<Rightarrow> string list" where
  "add_key k ks = (if k \<in> set ks then ks else ks @ [k])"

definition record_columns :: "py_dict list \<Rightarrow> string list" where
  "record_columns ds = foldl (\<lambda>ks d. foldl (\<lambda>ks k. add_key k ks) ks (map fst d)) [] ds"

definition record_cell :: "py_dict \<Rightarrow> string \<Rightarrow> cell" where
  "record_cell d k = (case map_of d k of None \<Rightarrow> NaN | Some v \<Rightarrow> v)"

definition DataFrame :: "py_dict list \<Rightarrow> dataframe" where
  "DataFrame ds =
     \<lparr>columns = record_columns ds,
      rows = map (\<lambda>d. map (record_cell d) (record_columns ds)) ds\<rparr>"

text \<open>Generators for the values the mock data uses.\<close>

definition const_cell :: "cell \<Rightarrow> gen" where
  "const_cell v g = (v, g)"

definition randint_cell :: "int \<Rightarrow> int \<Rightarrow> gen" where
  "randint_cell low high g = (case randint low high g of (n, g') \<Rightarrow> (IntC n, g'))"

definition uniform_cell :: "rat \<Rightarrow> rat \<Rightarrow> gen" where
  "uniform_cell low high g = (case uniform low high g of (x, g') \<Rightarrow> (FloatC x, g'))"

definition choice_cell :: "string list \<Rightarrow> gen" where
  "choice_cell options g = (case choice options g of (s, g') \<Rightarrow> (StrC s, g'))"

text \<open>
  \<open>str.lower\<close>. A character of the model is a Unicode code point below 256, so a string
  is a Python string of such code points. Among them the upper-case letters are \<open>A\<close> to
  \<open>Z\<close> (65 to 90) and the accented capitals 192 to 214 and 216 to 222; \<open>str.lower\<close> maps each
  to the letter 32 further on and leaves every other character as it is.
\<close>

definition upper_char :: "char \<Rightarrow> bool" where
  "upper_char c =
     ((65 \<le> (of_char c :: nat) \<and> (of_char c :: nat) \<le> 90)
      \<or> (192 \<le> (of_char c :: nat) \<and> (of_char c :: nat) \<le> 214)
      \<or> (216 \<le> (of_char c :: nat) \<and> (of_char c :: nat) \<le> 222))"

definition lower_char :: "char \<Rightarrow> char" where
  "lower_char c = (if upper_char c then char_of ((of_char c :: nat) + 32) else c)"

definition str_lower :: "string \<Rightarrow> string" where
  "str_lower s = map lower_char s"

section \<open>Pipeline A: the bundle loader\<close>

text \<open>The rows of the five mock tables, as the dict literals of the source.\<close>

definition volume_record :: "tstamp \<Rightarrow> (string \<times> gen) list" where
  "volume_record date =
     [(''total_reports'', randint_cell 1000 5000),
      (''serious_reports'', randint_cell 100 500),
      (''fatal_reports'', randint_cell 5 50),
      (''countries_affected'', randint_cell 10 30),
      (''report_month'', const_cell (TimeC date))]"

definition drugs :: "string list" where
  "drugs = [''ASPIRIN'', ''IBUPROFEN'', ''ACETAMINOPHEN'', ''LISINOPRIL'', ''METFORMIN'',
            ''ATORVASTATIN'', ''AMLODIPINE'', ''OMEPRAZOLE'', ''SIMVASTATIN'', ''PANTOPRAZOLE'']"

definition top_drugs_record :: "string \<Rightarrow> (string \<times> gen) list" where
  "top_drugs_record drug =
     [(''medicinalproduct'', const_cell (StrC drug)),
      (''generic_name'', const_cell (StrC (str_lower drug))),
      (''report_count'', randint_cell 100 1000),
      (''recovered_count'', randint_cell 50 800),
      (''fatal_count'', randint_cell 0 20),
      (''avg_age'', randint_cell 30 80),
      (''male_count'', randint_cell 40 200),
      (''female_count'', randint_cell 40 200)]"

definition countries :: "string list" where
  "countries = [''US'', ''GB'', ''CA'', ''AU'', ''DE'', ''FR'', ''JP'', ''IT'', ''ES'', ''BR'']"

definition global_dist_record :: "string \<Rightarrow> (string \<times> gen) list" where
  "global_dist_record country =
     [(''occurcountry'', const_cell (StrC country)),
      (''report_count'', randint_cell 100 2000),
      (''serious_reports'', randint_cell 10 200),
      (''fatal_reports'', randint_cell 0 20),
      (''unique_serious_reports'', randint_cell 10 150)]"

definition trends_record :: "tstamp \<Rightarrow> (string \<times> gen) list" where
  "trends_record date =
     [(''receivedate'', const_cell (TimeC date)),
      (''total_reports'', randint_cell 200 1000),
      (''serious_reports'', randint_cell 20 100),
      (''fatal_reports'', randint_cell 0 10),
      (''hospitalization_reports'', randint_cell 10 80)]"

definition suspect_drugs_record :: "string \<Rightarrow> (string \<times> gen) list" where
  "suspect_drugs_record drug =
     [(''medicinalproduct'', const_cell (StrC drug)),
      (''generic_name'', const_cell (StrC (str_lower drug))),
      (''drugcharacterization'', const_cell (StrC ''1'')),
      (''report_count'', randint_cell 80 800),
      (''recovered_count'', randint_cell 40 600),
      (''fatal_count'', randint_cell 0 15),
      (''unique_reports'', randint_cell 50 400)]"

text \<open>
  The fallback part of \<open>load_fda_dashboard_data\<close>: the five tables are generated in source
  order from one supply of draws.
\<close>

type_synonym fda_bundle =
  "dataframe option \<times> dataframe option \<times> dataframe option \<times> dataframe option \<times> dataframe option"

definition mock_volume_df :: "rng \<Rightarrow> dataframe \<times> rng" where
  "mock_volume_df g =
     (case append_records volume_record (date_range 12 ''M'') g of
        (volume_data, g') \<Rightarrow> (DataFrame volume_data, g'))"

definition mock_top_drugs_df :: "rng \<Rightarrow> dataframe \<times> rng" where
  "mock_top_drugs_df g =
     (case append_records top_drugs_record drugs g of
        (top_drugs_data, g') \<Rightarrow> (DataFrame top_drugs_data, g'))"

definition mock_global_dist_df :: "rng \<Rightarrow> dataframe \<times> rng" where
  "mock_global_dist_df g =
     (case append_records global_dist_record countries g of
        (global_dist_data, g') \<Rightarrow> (DataFrame global_dist_data, g'))"

definition mock_trends_df :: "rng \<Rightarrow> dataframe \<times> rng" where
  "mock_trends_df g =
     (case append_records trends_record (date_range 26 ''W'') g of
        (trends_data, g') \<Rightarrow> (DataFrame trends_data, g'))"

definition mock_suspect_drugs_df :: "rng \<Rightarrow> dataframe \<times> rng" where
  "mock_suspect_drugs_df g =
     (case append_records suspect_drugs_record (take 8 drugs) g of
        (suspect_drugs_data, g') \<Rightarrow> (DataFrame suspect_drugs_data, g'))"

definition mock_fda_data :: "rng \<Rightarrow> fda_bundle \<times> rng" where
  "mock_fda_data g0 =
     (case mock_volume_df g0 of (volume_df, g1) \<Rightarrow>
      case mock_top_drugs_df g1 of (top_drugs_df, g2) \<Rightarrow>
      case mock_global_dist_df g2 of (global_dist_df, g3) \<Rightarrow>
      case mock_trends_df g3 of (trends_df, g4) \<Rightarrow>
      case mock_suspect_drugs_df g4 of (suspect_drugs_df, g5) \<Rightarrow>
        ((Some volume_df, Some top_drugs_df, Some global_dist_df, Some trends_df,
          Some suspect_drugs_df), g5))"

text \<open>
  \<open>load_fda_dashboard_data\<close> after its five loader calls, as a function of what the loaders
  returned: the test of the source looks at the first two results only.
\<close>

definition fda_dashboard_data_from ::
  "dataframe option \<Rightarrow> dataframe option \<Rightarrow> dataframe option \<Rightarrow> dataframe option \<Rightarrow>
   dataframe option \<Rightarrow> rng \<Rightarrow> fda_bundle \<times> ui list \<times> rng" where
  "fda_dashboard_data_from volume_df top_drugs_df global_dist_df trends_df suspect_drugs_df g =
     (if volume_df \<noteq> None \<and> top_drugs_df \<noteq> None
      then ((volume_df, top_drugs_df, global_dist_df, trends_df, suspect_drugs_df), [], g)
      else (case mock_fda_data g of
              (bundle, g') \<Rightarrow>
                (bundle, [StWarning ''Using mock data - database connection not available''], g')))"

text \<open>
  \<open>load_fda_dashboard_data\<close>: the five loaders run in order, each adding what it shows to
  the page, then the test and the fallback. An exception that a loader lets through ends
  the call.
\<close>

definition load_fda_dashboard_data ::
  "'p st_connection \<Rightarrow> rng \<Rightarrow> py_error + fda_bundle \<times> ui list \<times> rng" where
  "load_fda_dashboard_data st_conn g =
     and_then (load_fda_volume_analysis st_conn) (\<lambda>(volume_df, ui1).
     and_then (load_top_drugs_analysis st_conn) (\<lambda>(top_drugs_df, ui2).
     and_then (load_global_adverse_distribution st_conn) (\<lambda>(global_dist_df, ui3).
     and_then (load_fda_safety_trends st_conn) (\<lambda>(trends_df, ui4).
     and_then (load_top_suspect_drugs st_conn) (\<lambda>(suspect_drugs_df, ui5).
       (case fda_dashboard_data_from volume_df top_drugs_df global_dist_df trends_df
               suspect_drugs_df g of
          (bundle, ui6, g') \<Rightarrow> Inr (bundle, ui1 @ ui2 @ ui3 @ ui4 @ ui5 @ ui6, g')))))))"

section \<open>Frame operations used by the page\<close>

fun index_of :: "string \<Rightarrow> string list \<Rightarrow> nat option" where
  "index_of k [] = None"
| "index_of k (c # cs) = (if k = c then Some 0 else map_option Suc (index_of k cs))"

text \<open>
  The cell of a row at a column position. A frame is rectangular, so the position is
  always inside the row; the model answers \<open>NaN\<close> otherwise.
\<close>

definition cell_at :: "cell list \<Rightarrow> nat \<Rightarrow> cell" where
  "cell_at r i = (if i < length r then r ! i else NaN)"

text \<open>\<open>df[name]\<close>: the column, or \<open>KeyError\<close>.\<close>

definition get_column :: "dataframe \<Rightarrow> string \<Rightarrow> py_error + cell list" where
  "get_column df name =
     (case index_of name (columns df) of
        None \<Rightarrow> Inl (KeyError name)
      | Some i \<Rightarrow> Inr (map (\<lambda>r. cell_at r i) (rows df)))"

text \<open>\<open>df[name] = values\<close>: replaces the column, or appends it as the last one.\<close>

definition assign_column :: "dataframe \<Rightarrow> string \<Rightarrow> cell list \<Rightarrow> dataframe" where
  "assign_column df name vals =
     (case index_of name (columns df) of
        None \<Rightarrow>
          \<lparr>columns = columns df @ [name],
           rows = map (\<lambda>(r, v). r @ [v]) (zip (rows df) vals)\<rparr>
      | Some i \<Rightarrow>
          \<lparr>columns = columns df,
           rows = map (\<lambda>(r, v). r[i := v]) (zip (rows df) vals)\<rparr>)"

text \<open>\<open>df.dropna(subset=[name])\<close>: the rows whose cell in that column is not missing.\<close>

definition dropna :: "dataframe \<Rightarrow> string \<Rightarrow> py_error + dataframe" where
  "dropna df name =
     (case index_of name (columns df) of
        None \<Rightarrow> Inl (KeyError name)
      | Some i \<Rightarrow>
          Inr \<lparr>columns = columns df, rows = filter (\<lambda>r. cell_at r i \<noteq> NaN) (rows df)\<rparr>)"

text \<open>\<open>df.head(n)\<close>.\<close>

definition head :: "nat \<Rightarrow> dataframe \<Rightarrow> dataframe" where
  "head n df = \<lparr>columns = columns df, rows = take n (rows df)\<rparr>"

text \<open>
  \<open>df.set_index(name)\<close>: the column becomes the row labels and leaves the columns. The
  result is the labels and the remaining frame.
\<close>

definition remove_at :: "nat \<Rightarrow> 'a list \<Rightarrow> 'a list" where
  "remove_at i xs = take i xs @ drop (Suc i) xs"

definition set_index :: "dataframe \<Rightarrow> string \<Rightarrow> py_error + cell list \<times> dataframe" where
  "set_index df name =
     (case index_of name (columns df) of
        None \<Rightarrow> Inl (KeyError name)
      | Some i \<Rightarrow>
          Inr (map (\<lambda>r. cell_at r i) (rows df),
               \<lparr>columns = remove_at i (columns df), rows = map (remove_at i) (rows df)\<rparr>))"

text \<open>\<open>df[[name, ...]]\<close>: the named columns in the order asked, or \<open>KeyError\<close>.\<close>

fun column_positions :: "string list \<Rightarrow> string list \<Rightarrow> py_error + nat list" where
  "column_positions cols [] = Inr []"
| "column_positions cols (n # ns) =
     (case index_of n cols of
        None \<Rightarrow> Inl (KeyError n)
      | Some i \<Rightarrow>
          (case column_positions cols ns of
             Inl e \<Rightarrow> Inl e
           | Inr ps \<Rightarrow> Inr (i # ps)))"

definition select_columns :: "dataframe \<Rightarrow> string list \<Rightarrow> py_error + dataframe" where
  "select_columns df names =
     (case column_positions (columns df) names of
        Inl e \<Rightarrow> Inl e
      | Inr ps \<Rightarrow> Inr \<lparr>columns = names, rows = map (\<lambda>r. map (cell_at r) ps) (rows df)\<rparr>)"

text \<open>
  \<open>df.iloc[-1]\<close>: the last row as a series, its labels the columns; \<open>IndexError\<close> on a frame
  without rows. \<open>series[label]\<close> is the value, or \<open>KeyError\<close>.
\<close>

type_synonym series = "(string \<times> cell) list"

definition iloc_last :: "dataframe \<Rightarrow> py_error + series" where
  "iloc_last df =
     (if rows df = [] then Inl IndexError else Inr (zip (columns df) (last (rows df))))"

definition series_get :: "series \<Rightarrow> string \<Rightarrow> py_error + cell" where
  "series_get s label = (case map_of s label of None \<Rightarrow> Inl (KeyError label) | Some v \<Rightarrow> Inr v)"

section \<open>Pipeline A: page sections\<close>

text \<open>
  The section "Report Type Distribution": the pie chart of the latest week, or a warning
  when the trends table is empty.
\<close>

definition report_type_distribution :: "dataframe \<Rightarrow> py_error + ui list" where
  "report_type_distribution trends_df =
     (if \<not> df_empty trends_df then
        (case iloc_last trends_df of
           Inl e \<Rightarrow> Inl e
         | Inr latest_week \<Rightarrow>
        (case series_get latest_week ''total_reports'' of
           Inl e \<Rightarrow> Inl e
         | Inr total_reports \<Rightarrow>
        (case series_get latest_week ''serious_reports'' of
           Inl e \<Rightarrow> Inl e
         | Inr serious_reports \<Rightarrow>
        (case series_get latest_week ''fatal_reports'' of
           Inl e \<Rightarrow> Inl e
         | Inr fatal_reports \<Rightarrow>
        (case series_get latest_week ''hospitalization_reports'' of
           Inl e \<Rightarrow> Inl e
         | Inr hospitalization_reports \<Rightarrow>
             Inr [PieChart ''Latest Week Report Distribution''
                    [''Total Reports'', ''Serious Reports'', ''Fatal Reports'',
                     ''Hospitalization Reports'']
                    [total_reports, serious_reports, fatal_reports, hospitalization_reports]
                    (3 / 10)])))))
      else Inr [StWarning ''No trend data available for visualization''])"

text \<open>
  The section "Global Report Distribution": the static table from 2-letter to 3-letter
  country codes, the data set of the choropleth map and the heatmap table.
\<close>

definition code_mapping :: "(string \<times> string) list" where
  "code_mapping =
     [(''US'', ''USA''), (''GB'', ''GBR''), (''CA'', ''CAN''), (''AU'', ''AUS''), (''DE'', ''DEU''),
      (''FR'', ''FRA''), (''JP'', ''JPN''), (''IT'', ''ITA''), (''ES'', ''ESP''), (''BR'', ''BRA''),
      (''CN'', ''CHN''), (''IN'', ''IND''), (''MX'', ''MEX''), (''RU'', ''RUS''), (''ZA'', ''ZAF''),
      (''KR'', ''KOR''), (''NL'', ''NLD''), (''CH'', ''CHE''), (''SE'', ''SWE''), (''AR'', ''ARG'')]"

text \<open>\<open>series.map(code_mapping)\<close> on one cell: a value that is not a key becomes \<open>NaN\<close>.\<close>

definition map_code :: "cell \<Rightarrow> cell" where
  "map_code v =
     (case v of
        StrC s \<Rightarrow> (case map_of code_mapping s of None \<Rightarrow> NaN | Some t \<Rightarrow> StrC t)
      | _ \<Rightarrow> NaN)"

text \<open>\<open>map_df\<close> with its column \<open>iso_alpha\<close>.\<close>

definition map_df :: "dataframe \<Rightarrow> py_error + dataframe" where
  "map_df global_dist_df =
     (case get_column global_dist_df ''occurcountry'' of
        Inl e \<Rightarrow> Inl e
      | Inr codes \<Rightarrow> Inr (assign_column global_dist_df ''iso_alpha'' (map map_code codes)))"

text \<open>The frame handed to \<open>px.choropleth\<close>: \<open>map_df.dropna(subset=['iso_alpha'])\<close>.\<close>

definition choropleth_data :: "dataframe \<Rightarrow> py_error + dataframe" where
  "choropleth_data global_dist_df =
     (case map_df global_dist_df of
        Inl e \<Rightarrow> Inl e
      | Inr m \<Rightarrow> dropna m ''iso_alpha'')"

text \<open>
  The heatmap table: \<open>global_dist_df.head(15).set_index('occurcountry')\<close>, of which the
  three report columns are shown.
\<close>

definition heatmap_table :: "dataframe \<Rightarrow> py_error + ui list" where
  "heatmap_table global_dist_df =
     (case set_index (head 15 global_dist_df) ''occurcountry'' of
        Inl e \<Rightarrow> Inl e
      | Inr (labels, heatmap_df) \<Rightarrow>
          (case select_columns heatmap_df [''report_count'', ''serious_reports'', ''fatal_reports''] of
             Inl e \<Rightarrow> Inl e
           | Inr shown \<Rightarrow> Inr [Dataframe labels shown]))"

section \<open>Pipeline B: the bundle loader\<close>

text \<open>
  Formatted integers of the f-strings: \<open>{n}\<close> is \<open>str_int n\<close> and \<open>{n:05d}\<close> is
  \<open>format_0d 5 n\<close>, padded with zeros to the width.
\<close>

definition digit :: "nat \<Rightarrow> char" where
  "digit d = ''0123456789'' ! d"

fun nat_digits :: "nat \<Rightarrow> string" where
  "nat_digits n = (if n < 10 then [digit n] else nat_digits (n div 10) @ [digit (n mod 10)])"

declare nat_digits.simps [simp del]

definition str_int :: "int \<Rightarrow> string" where
  "str_int n = (if n < 0 then CHR ''-'' # nat_digits (nat (- n)) else nat_digits (nat n))"

definition zero_pad :: "nat \<Rightarrow> string \<Rightarrow> string" where
  "zero_pad w s = replicate (w - length s) (CHR ''0'') @ s"

definition format_0d :: "nat \<Rightarrow> int \<Rightarrow> string" where
  "format_0d w n =
     (if n < 0 then CHR ''-'' # zero_pad (w - 1) (nat_digits (nat (- n)))
      else zero_pad w (nat_digits (nat n)))"

text \<open>
  \<open>f'P{np.random.randint(low, high):05d}'\<close> and
  \<open>pd.Timestamp.now() - pd.DateOffset(days=np.random.randint(low, high))\<close>.
\<close>

definition formatted_randint_cell :: "string \<Rightarrow> nat \<Rightarrow> int \<Rightarrow> int \<Rightarrow> gen" where
  "formatted_randint_cell prefix w low high g =
     (case randint low high g of (n, g') \<Rightarrow> (StrC (prefix @ format_0d w n), g'))"

definition days_ago_cell :: "int \<Rightarrow> int \<Rightarrow> gen" where
  "days_ago_cell low high g =
     (case randint low high g of (n, g') \<Rightarrow> (TimeC (NowMinusDays n), g'))"

text \<open>
  The rows of the six mock tables, as the dict literals of the source. The literal of the
  financial table writes \<open>monthly_payer_coverage\<close> and \<open>monthly_patient_payment\<close> twice.
\<close>

definition exec_record :: "clock \<Rightarrow> nat \<Rightarrow> (string \<times> gen) list" where
  "exec_record clk i =
     [(''month_date'', const_cell (TimeC (NowMinusMonths (int i)))),
      (''year'', const_cell (IntC (now_year clk - int (i div 12)))),
      (''month'', const_cell (IntC (now_month clk - int (i mod 12)))),
      (''encounter_count'', randint_cell 1000 5000),
      (''unique_patients'', randint_cell 800 4000),
      (''total_revenue'', uniform_cell 500000 2000000),
      (''avg_cost_per_encounter'', uniform_cell 200 800),
      (''total_payer_coverage'', uniform_cell 400000 1500000),
      (''total_patient_payment'', uniform_cell 100000 500000),
      (''avg_coverage_percentage'', uniform_cell 70 95),
      (''encounter_class'', choice_cell [''ambulatory'', ''emergency'', ''inpatient'', ''wellness'']),
      (''cost_category'', choice_cell [''low'', ''medium'', ''high'']),
      (''encounter_day_name'', choice_cell [''Monday'', ''Tuesday'', ''Wednesday'', ''Thursday'', ''Friday'', ''Saturday'', ''Sunday'']),
      (''state'', choice_cell [''MA'', ''NY'', ''CA'', ''TX'', ''FL''])]"

definition patient_record :: "nat \<Rightarrow> (string \<times> gen) list" where
  "patient_record i =
     [(''patient_id'', const_cell (StrC (''P'' @ format_0d 5 (int i)))),
      (''full_name'', const_cell (StrC (''Patient '' @ str_int (int i)))),
      (''age'', randint_cell 18 90),
      (''age_group'', choice_cell [''18-30'', ''31-45'', ''46-60'', ''61-75'', ''75+'']),
      (''gender'', choice_cell [''M'', ''F'']),
      (''gender_full'', choice_cell [''Male'', ''Female'']),
      (''race'', choice_cell [''White'', ''Black'', ''Asian'', ''Hispanic'', ''Other'']),
      (''ethnicity'', choice_cell [''Non-Hispanic'', ''Hispanic'']),
      (''marital_status'', choice_cell [''Single'', ''Married'', ''Divorced'', ''Widowed'']),
      (''state'', choice_cell [''MA'', ''NY'', ''CA'', ''TX'', ''FL'']),
      (''county'', choice_cell [''Suffolk'', ''Middlesex'', ''Essex'', ''Norfolk'', ''Bristol'']),
      (''city'', choice_cell [''Boston'', ''NYC'', ''Los Angeles'', ''Houston'', ''Miami'']),
      (''zip'', randint_cell 1000 9999),
      (''income'', uniform_cell 20000 200000),
      (''income_level'', choice_cell [''Very Low'', ''Low'', ''Medium'', ''High'', ''Very High'']),
      (''healthcare_expenses'', uniform_cell 1000 50000),
      (''healthcare_coverage'', uniform_cell 0.5 1.0),
      (''coverage_tier'', choice_cell [''Bronze'', ''Silver'', ''Gold'', ''Platinum'']),
      (''is_alive'', const_cell (BoolC True)),
      (''total_encounters'', randint_cell 1 50),
      (''total_medical_costs'', uniform_cell 1000 100000),
      (''avg_cost_per_encounter'', uniform_cell 100 1000),
      (''total_out_of_pocket'', uniform_cell 100 10000)]"

definition encounter_record :: "clock \<Rightarrow> nat \<Rightarrow> (string \<times> gen) list" where
  "encounter_record clk i =
     [(''encounter_id'', const_cell (StrC (''E'' @ format_0d 5 (int i)))),
      (''encounter_date'', days_ago_cell 0 730),
      (''encounter_year'', const_cell (IntC (now_year clk))),
      (''encounter_month'', const_cell (IntC (now_month clk))),
      (''encounter_quarter'', const_cell (IntC ((now_month clk - 1) div 3 + 1))),
      (''encounter_day_of_week'', randint_cell 0 7),
      (''encounter_day_name'', choice_cell [''Monday'', ''Tuesday'', ''Wednesday'', ''Thursday'', ''Friday'', ''Saturday'', ''Sunday'']),
      (''encounter_class'', choice_cell [''ambulatory'', ''emergency'', ''inpatient'', ''wellness'']),
      (''encounter_code'', choice_cell [''Z00'', ''Z01'', ''Z02'', ''Z03'']),
      (''encounter_description'', choice_cell [''Routine'', ''Emergency'', ''Surgical'', ''Preventive'']),
      (''reason_code'', choice_cell [''R10'', ''R20'', ''R30'', ''R40'']),
      (''reason_description'', choice_cell [''Abdominal Pain'', ''Skin Rash'', ''Fever'', ''Chest Pain'']),
      (''cost_category'', choice_cell [''low'', ''medium'', ''high'']),
      (''duration_minutes'', randint_cell 15 480),
      (''duration_hours'', uniform_cell 0.25 8),
      (''base_encounter_cost'', uniform_cell 100 5000),
      (''total_claim_cost'', uniform_cell 200 10000),
      (''payer_coverage'', uniform_cell 100 8000),
      (''patient_out_of_pocket'', uniform_cell 50 2000),
      (''payer_coverage_percentage'', uniform_cell 70 95),
      (''patient_id'', formatted_randint_cell ''P'' 5 0 1000),
      (''provider_id'', formatted_randint_cell ''PR'' 3 0 100),
      (''payer_id'', formatted_randint_cell ''PY'' 3 0 50),
      (''organization_id'', formatted_randint_cell ''ORG'' 2 0 20),
      (''age'', randint_cell 18 90),
      (''age_group'', choice_cell [''18-30'', ''31-45'', ''46-60'', ''61-75'', ''75+'']),
      (''gender_full'', choice_cell [''Male'', ''Female'']),
      (''state'', choice_cell [''MA'', ''NY'', ''CA'', ''TX'', ''FL'']),
      (''income_level'', choice_cell [''Very Low'', ''Low'', ''Medium'', ''High'', ''Very High'']),
      (''coverage_tier'', choice_cell [''Bronze'', ''Silver'', ''Gold'', ''Platinum''])]"

definition claims_record :: "clock \<Rightarrow> nat \<Rightarrow> (string \<times> gen) list" where
  "claims_record clk i =
     [(''claim_id'', const_cell (StrC (''C'' @ format_0d 5 (int i)))),
      (''patient_id'', formatted_randint_cell ''P'' 5 0 1000),
      (''provider_id'', formatted_randint_cell ''PR'' 3 0 100),
      (''service_date'', days_ago_cell 0 730),
      (''service_year'', const_cell (IntC (now_year clk))),
      (''service_month'', const_cell (IntC (now_month clk))),
      (''service_quarter'', const_cell (IntC ((now_month clk - 1) div 3 + 1))),
      (''current_illness_date'', days_ago_cell 1 30),
      (''primary_insurance_id'', formatted_randint_cell ''INS'' 3 0 50),
      (''secondary_insurance_id'', formatted_randint_cell ''INS'' 3 0 50),
      (''insurance_coverage_type'', choice_cell [''PPO'', ''HMO'', ''POS'', ''EPO'']),
      (''primary_status'', choice_cell [''Pending'', ''Approved'', ''Denied'', ''In Review'']),
      (''secondary_status'', choice_cell [''Pending'', ''Approved'', ''Denied'', ''In Review'']),
      (''patient_status'', choice_cell [''Pending'', ''Approved'', ''Denied'', ''In Review'']),
      (''primary_outstanding'', uniform_cell 0 5000),
      (''secondary_outstanding'', uniform_cell 0 3000),
      (''patient_outstanding'', uniform_cell 0 2000),
      (''total_outstanding'', uniform_cell 0 10000),
      (''outstanding_risk_level'', choice_cell [''Low Risk'', ''Medium Risk'', ''High Risk'']),
      (''primary_last_billed_date'', days_ago_cell 1 90),
      (''secondary_last_billed_date'', days_ago_cell 1 90),
      (''patient_last_billed_date'', days_ago_cell 1 90),
      (''primary_claim_type'', choice_cell [''Medical'', ''Dental'', ''Vision'', ''Pharmacy'']),
      (''secondary_claim_type'', choice_cell [''Medical'', ''Dental'', ''Vision'', ''Pharmacy'']),
      (''age'', randint_cell 18 90),
      (''age_group'', choice_cell [''18-30'', ''31-45'', ''46-60'', ''61-75'', ''75+'']),
      (''gender_full'', choice_cell [''Male'', ''Female'']),
      (''state'', choice_cell [''MA'', ''NY'', ''CA'', ''TX'', ''FL'']),
      (''income_level'', choice_cell [''Very Low'', ''Low'', ''Medium'', ''High'', ''Very High'']),
      (''coverage_tier'', choice_cell [''Bronze'', ''Silver'', ''Gold'', ''Platinum'']),
      (''diagnosis1'', choice_cell [''R10'', ''R20'', ''R30'', ''R40'']),
      (''diagnosis2'', choice_cell [''R10'', ''R20'', ''R30'', ''R40'']),
      (''diagnosis3'', choice_cell [''R10'', ''R20'', ''R30'', ''R40'']),
      (''diagnosis4'', choice_cell [''R10'', ''R20'', ''R30'', ''R40'']),
      (''diagnosis5'', choice_cell [''R10'', ''R20'', ''R30'', ''R40'']),
      (''diagnosis6'', choice_cell [''R10'', ''R20'', ''R30'', ''R40'']),
      (''diagnosis7'', choice_cell [''R10'', ''R20'', ''R30'', ''R40'']),
      (''diagnosis8'', choice_cell [''R10'', ''R20'', ''R30'', ''R40'']),
      (''diagnosis_count'', randint_cell 1 8)]"

definition financial_record :: "clock \<Rightarrow> nat \<Rightarrow> (string \<times> gen) list" where
  "financial_record clk i =
     [(''encounter_date'', days_ago_cell 0 730),
      (''encounter_year'', const_cell (IntC (now_year clk))),
      (''encounter_month'', const_cell (IntC (now_month clk))),
      (''encounter_quarter'', const_cell (IntC ((now_month clk - 1) div 3 + 1))),
      (''encounter_class'', choice_cell [''ambulatory'', ''emergency'', ''inpatient'', ''wellness'']),
      (''cost_category'', choice_cell [''low'', ''medium'', ''high'']),
      (''patient_id'', formatted_randint_cell ''P'' 5 0 1000),
      (''provider_id'', formatted_randint_cell ''PR'' 3 0 100),
      (''payer_id'', formatted_randint_cell ''PY'' 3 0 50),
      (''base_encounter_cost'', uniform_cell 100 5000),
      (''total_claim_cost'', uniform_cell 200 10000),
      (''payer_coverage'', uniform_cell 100 8000),
      (''patient_out_of_pocket'', uniform_cell 50 2000),
      (''payer_coverage_percentage'', uniform_cell 70 95),
      (''state'', choice_cell [''MA'', ''NY'', ''CA'', ''TX'', ''FL'']),
      (''county'', choice_cell [''Suffolk'', ''Middlesex'', ''Essex'', ''Norfolk'', ''Bristol'']),
      (''age_group'', choice_cell [''18-30'', ''31-45'', ''46-60'', ''61-75'', ''75+'']),
      (''gender_full'', choice_cell [''Male'', ''Female'']),
      (''income_level'', choice_cell [''Very Low'', ''Low'', ''Medium'', ''High'', ''Very High'']),
      (''income'', uniform_cell 20000 200000),
      (''healthcare_expenses'', uniform_cell 1000 50000),
      (''healthcare_coverage'', uniform_cell 0.5 1.0),
      (''total_claim_outstanding'', uniform_cell 0 10000),
      (''total_claims'', randint_cell 1 20),
      (''monthly_total_revenue'', uniform_cell 500000 2000000),
      (''monthly_payer_coverage'', uniform_cell 400000 1500000),
      (''monthly_patient_payment'', uniform_cell 100000 500000),
      (''state_total_revenue'', uniform_cell 1000000 5000000),
      (''state_payer_coverage'', uniform_cell 800000 4000000),
      (''state_patient_payment'', uniform_cell 200000 1000000),
      (''class_total_revenue'', uniform_cell 500000 2000000),
      (''payer_total_revenue'', uniform_cell 200000 1000000),
      (''monthly_payer_coverage'', uniform_cell 400000 1500000),
      (''monthly_patient_payment'', uniform_cell 100000 500000),
      (''avg_coverage_by_payer'', uniform_cell 70 95),
      (''avg_coverage_by_income'', uniform_cell 70 95),
      (''avg_coverage_by_age'', uniform_cell 70 95),
      (''avg_cost_by_class'', uniform_cell 200 1000),
      (''avg_cost_by_provider'', uniform_cell 200 1000),
      (''patient_burden_percentage'', uniform_cell 1 20),
      (''financial_burden_category'', choice_cell [''Low Burden'', ''Medium Burden'', ''High Burden''])]"

fun geo_record :: "string \<times> string \<times> string \<Rightarrow> (string \<times> gen) list" where
  "geo_record (state, county, city) =
     [(''state'', const_cell (StrC state)),
      (''county'', const_cell (StrC county)),
      (''city'', const_cell (StrC city)),
      (''patient_count'', randint_cell 100 5000),
      (''avg_age'', uniform_cell 30 70),
      (''avg_income'', uniform_cell 30000 150000),
      (''avg_coverage_rate'', uniform_cell 0.7 0.95),
      (''total_expenses'', uniform_cell 100000 5000000),
      (''avg_expenses_per_patient'', uniform_cell 1000 10000),
      (''encounter_count'', randint_cell 500 25000),
      (''total_medical_costs'', uniform_cell 200000 10000000),
      (''avg_cost_per_encounter'', uniform_cell 200 1000),
      (''total_insurance_paid'', uniform_cell 150000 8000000),
      (''total_patient_paid'', uniform_cell 50000 2000000),
      (''avg_coverage_percentage'', uniform_cell 70 95),
      (''unique_encounter_patients'', randint_cell 400 4000),
      (''claim_count'', randint_cell 200 10000),
      (''total_outstanding'', uniform_cell 10000 500000),
      (''avg_outstanding_per_claim'', uniform_cell 50 500),
      (''unique_claim_patients'', randint_cell 150 3000),
      (''encounters_per_patient'', uniform_cell 1 10),
      (''medical_cost_per_patient'', uniform_cell 1000 20000),
      (''outstanding_per_patient'', uniform_cell 50 1000),
      (''outstanding_percentage'', uniform_cell 5 30),
      (''geographic_risk_level'', choice_cell [''Low Risk'', ''Medium Risk'', ''High Risk''])]"

text \<open>
  The fallback part of \<open>load_healthcare_dashboard_data\<close>: the six tables are generated in
  source order from one supply of draws. The geographic table loops over states, counties
  and cities, nested in that order.
\<close>

type_synonym healthcare_bundle =
  "dataframe option \<times> dataframe option \<times> dataframe option \<times> dataframe option \<times>
   dataframe option \<times> dataframe option"

definition mock_exec_df :: "clock \<Rightarrow> rng \<Rightarrow> dataframe \<times> rng" where
  "mock_exec_df clk g =
     (case append_records (exec_record clk) [0..<24] g of
        (exec_data, g') \<Rightarrow> (DataFrame exec_data, g'))"

definition mock_patient_df :: "rng \<Rightarrow> dataframe \<times> rng" where
  "mock_patient_df g =
     (case append_records patient_record [0..<1000] g of
        (patient_data, g') \<Rightarrow> (DataFrame patient_data, g'))"

definition mock_encounter_df :: "clock \<Rightarrow> rng \<Rightarrow> dataframe \<times> rng" where
  "mock_encounter_df clk g =
     (case append_records (encounter_record clk) [0..<5000] g of
        (encounter_data, g') \<Rightarrow> (DataFrame encounter_data, g'))"

definition mock_claims_df :: "clock \<Rightarrow> rng \<Rightarrow> dataframe \<times> rng" where
  "mock_claims_df clk g =
     (case append_records (claims_record clk) [0..<2000] g of
        (claims_data, g') \<Rightarrow> (DataFrame claims_data, g'))"

definition mock_financial_df :: "clock \<Rightarrow> rng \<Rightarrow> dataframe \<times> rng" where
  "mock_financial_df clk g =
     (case append_records (financial_record clk) [0..<1000] g of
        (financial_data, g') \<Rightarrow> (DataFrame financial_data, g'))"

definition states :: "string list" where
  "states = [''MA'', ''NY'', ''CA'', ''TX'', ''FL'']"

definition geo_loop :: "(string \<times> string \<times> string) list" where
  "geo_loop =
     List.product states
       (List.product [''Suffolk'', ''Middlesex'', ''Essex'', ''Norfolk'', ''Bristol'']
          [''Boston'', ''NYC'', ''Los Angeles'', ''Houston'', ''Miami''])"

definition mock_geo_df :: "rng \<Rightarrow> dataframe \<times> rng" where
  "mock_geo_df g =
     (case append_records geo_record geo_loop g of
        (geo_data, g') \<Rightarrow> (DataFrame geo_data, g'))"

definition mock_healthcare_data :: "clock \<Rightarrow> rng \<Rightarrow> healthcare_bundle \<times> rng" where
  "mock_healthcare_data clk g0 =
     (case mock_exec_df clk g0 of (exec_df, g1) \<Rightarrow>
      case mock_patient_df g1 of (patient_df, g2) \<Rightarrow>
      case mock_encounter_df clk g2 of (encounter_df, g3) \<Rightarrow>
      case mock_claims_df clk g3 of (claims_df, g4) \<Rightarrow>
      case mock_financial_df clk g4 of (financial_df, g5) \<Rightarrow>
      case mock_geo_df g5 of (geo_df, g6) \<Rightarrow>
        ((Some exec_df, Some patient_df, Some encounter_df, Some claims_df, Some financial_df,
          Some geo_df), g6))"

text \<open>
  \<open>df.columns = df.columns.str.lower()\<close>. The \<open>.str\<close> accessor needs string labels. A frame
  with columns has them. The frame without columns is \<open>pd.DataFrame()\<close>, which is what an
  executor returns for a result without rows; its columns are a \<open>RangeIndex\<close> (pandas 2 and
  later), on which \<open>.str\<close> raises \<open>AttributeError\<close>. So does \<open>None.columns\<close>.
\<close>

definition set_lower_columns :: "dataframe option \<Rightarrow> py_error + dataframe option" where
  "set_lower_columns t =
     (case t of
        None \<Rightarrow> Inl AttributeError
      | Some df \<Rightarrow>
          if columns df = [] then Inl AttributeError
          else Inr (Some \<lparr>columns = map str_lower (columns df), rows = rows df\<rparr>))"

text \<open>
  \<open>load_healthcare_dashboard_data\<close> after its six loader calls, as a function of what the
  loaders returned: the test of the source looks at all six results, and the real path
  lower-cases the columns of the six tables in order.
\<close>

definition healthcare_dashboard_data_from ::
  "dataframe option \<Rightarrow> dataframe option \<Rightarrow> dataframe option \<Rightarrow> dataframe option \<Rightarrow>
   dataframe option \<Rightarrow> dataframe option \<Rightarrow> clock \<Rightarrow> rng \<Rightarrow>
   py_error + healthcare_bundle \<times> ui list \<times> rng" where
  "healthcare_dashboard_data_from exec_df patient_df encounter_df claims_df financial_df geo_df
       clk g =
     (if list_all (\<lambda>df. df \<noteq> None)
           [exec_df, patient_df, encounter_df, claims_df, financial_df, geo_df]
      then
        and_then (set_lower_columns exec_df) (\<lambda>exec_df.
        and_then (set_lower_columns patient_df) (\<lambda>patient_df.
        and_then (set_lower_columns encounter_df) (\<lambda>encounter_df.
        and_then (set_lower_columns claims_df) (\<lambda>claims_df.
        and_then (set_lower_columns financial_df) (\<lambda>financial_df.
        and_then (set_lower_columns geo_df) (\<lambda>geo_df.
          Inr ((exec_df, patient_df, encounter_df, claims_df, financial_df, geo_df), [], g)))))))
      else (case mock_healthcare_data clk g of
              (bundle, g') \<Rightarrow>
                Inr (bundle, [StWarning ''Using mock data - database connection not available''],
                     g')))"

text \<open>
  \<open>load_healthcare_dashboard_data\<close>: the six loaders run in order, then the test, the
  lower-casing or the fallback. An exception that a loader lets through ends the call.
\<close>

definition load_healthcare_dashboard_data ::
  "'p st_connection \<Rightarrow> clock \<Rightarrow> rng \<Rightarrow> py_error + healthcare_bundle \<times> ui list \<times> rng" where
  "load_healthcare_dashboard_data st_conn clk g =
     and_then (load_executive_dashboard_data st_conn) (\<lambda>(exec_df, ui1).
     and_then (load_patient_demographics_data st_conn) (\<lambda>(patient_df, ui2).
     and_then (load_encounter_analysis_data st_conn) (\<lambda>(encounter_df, ui3).
     and_then (load_claims_management_data st_conn) (\<lambda>(claims_df, ui4).
     and_then (load_financial_insights_data st_conn) (\<lambda>(financial_df, ui5).
     and_then (load_geographic_analysis_data st_conn) (\<lambda>(geo_df, ui6).
     and_then (healthcare_dashboard_data_from exec_df patient_df encounter_df claims_df
                 financial_df geo_df clk g) (\<lambda>(bundle, ui7, g').
       Inr (bundle, ui1 @ ui2 @ ui3 @ ui4 @ ui5 @ ui6 @ ui7, g'))))))))"

section \<open>Shapes and predicates used in the statements\<close>

text \<open>The keys of a dict literal, in the order the dict holds them.\<close>

definition literal_keys :: "string list \<Rightarrow> string list" where
  "literal_keys ks = foldl (\<lambda>acc k. add_key k acc) [] ks"

text \<open>A column name is all lower case when none of its characters is an upper-case letter.\<close>

definition lower_name :: "string \<Rightarrow> bool" where
  "lower_name s = list_all (\<lambda>c. \<not> upper_char c) s"

definition lower_named :: "dataframe option \<Rightarrow> bool" where
  "lower_named t = (case t of None \<Rightarrow> False | Some df \<Rightarrow> list_all lower_name (columns df))"

text \<open>The shape of a table: its column names in order and its number of rows.\<close>

definition shape :: "dataframe option \<Rightarrow> (string list \<times> nat) option" where
  "shape t = map_option (\<lambda>df. (columns df, len df)) t"

text \<open>The members of a bundle, in tuple order.\<close>

fun fda_tables :: "fda_bundle \<Rightarrow> dataframe option list" where
  "fda_tables (volume_df, top_drugs_df, global_dist_df, trends_df, suspect_drugs_df) =
     [volume_df, top_drugs_df, global_dist_df, trends_df, suspect_drugs_df]"

fun healthcare_tables :: "healthcare_bundle \<Rightarrow> dataframe option list" where
  "healthcare_tables (exec_df, patient_df, encounter_df, claims_df, financial_df, geo_df) =
     [exec_df, patient_df, encounter_df, claims_df, financial_df, geo_df]"

text \<open>The trends table of a Pipeline A bundle.\<close>

fun trends_of :: "fda_bundle \<Rightarrow> dataframe option" where
  "trends_of (volume_df, top_drugs_df, global_dist_df, trends_df, suspect_drugs_df) = trends_df"

section \<open>Sample inputs\<close>

text \<open>
  A small table as a warehouse would return it, a view without rows, a connection that
  answers every query with a given table, a Warehouse A on which only the safety-trends
  query fails, a warehouse that is down, and a connection whose query is interrupted from
  the keyboard.
\<close>

definition sample_table :: dataframe where
  "sample_table = \<lparr>columns = [''PATIENT_ID'', ''Age''], rows = [[StrC ''P00001'', IntC 42]]\<rparr>"

definition serving :: "dataframe \<Rightarrow> unit st_connection" where
  "serving t = (\<lambda>name ty. Returns (\<lambda>query params. Returns (Some t)))"

definition zero_row_view :: dataframe where
  "zero_row_view = \<lparr>columns = [''MONTH_DATE'', ''TOTAL_REVENUE''], rows = []\<rparr>"

definition trends_query_fails :: "unit st_connection" where
  "trends_query_fails =
     (\<lambda>name ty. Returns (\<lambda>query params.
        if query = fda_safety_trends_query then RaisesException ''timeout''
        else Returns (Some sample_table)))"

definition warehouse_down :: "unit st_connection" where
  "warehouse_down = (\<lambda>name ty. RaisesException ''connection refused'')"


text \<open>
  A global-distribution table of 17 countries, within the loader's limit of 20 rows. The
  16th code is in the country-code table, the 17th is not.
\<close>

definition sample_codes :: "string list" where
  "sample_codes =
     [''US'', ''GB'', ''CA'', ''AU'', ''DE'', ''FR'', ''JP'', ''IT'', ''ES'', ''BR'',
      ''CN'', ''IN'', ''MX'', ''RU'', ''ZA'', ''KR'', ''XX'']"

definition seventeen_countries :: dataframe where
  "seventeen_countries =
     \<lparr>columns = [''occurcountry'', ''report_count'', ''serious_reports'', ''fatal_reports'',
                 ''unique_serious_reports''],
      rows = map (\<lambda>c. [StrC c, IntC 5, IntC 2, IntC 0, IntC 1]) sample_codes\<rparr>"

section \<open>Executor results\<close>

lemma and_then_Inr:
  "and_then (Inr x) f = f x"
  by (simp add: and_then_def)

lemma and_then_Inl:
  "and_then (Inl e) f = Inl e"
  by (simp add: and_then_def)










section \<open>Frames built by the mock loops\<close>

text \<open>
  A loop that appends one dict per element yields as many records as it has elements, and
  every record has the keys of the dict literal. The frame built from them has those keys
  as its columns.
\<close>

lemma length_append_records:
  "length (fst (append_records row xs g)) = length xs"
  by (induction xs arbitrary: g) (simp_all add: split_beta)

lemma keys_eval_items:
  "map fst (fst (eval_items items g)) = map fst items"
  by (induction items g rule: eval_items.induct) (auto split: prod.splits)

lemma keys_update:
  "map fst (AList.update k v d) = add_key k (map fst d)"
  by (induction d) (auto simp: add_key_def)

lemma keys_foldl_update:
  "map fst (foldl (\<lambda>d (k, v). AList.update k v d) d kvs) =
     foldl (\<lambda>acc k. add_key k acc) (map fst d) (map fst kvs)"
  by (induction kvs arbitrary: d) (auto simp: keys_update)

lemma keys_dict_of_items:
  "map fst (dict_of_items kvs) = literal_keys (map fst kvs)"
  by (simp add: dict_of_items_def literal_keys_def keys_foldl_update)

lemma keys_append_records:
  "d \<in> set (fst (append_records row xs g)) \<Longrightarrow>
     \<exists>x \<in> set xs. map fst d = literal_keys (map fst (row x))"
proof (induction xs arbitrary: g)
  case Nil
  then show ?case by simp
next
  case (Cons x xs)
  obtain kvs g1 where e: "eval_items (row x) g = (kvs, g1)"
    by (cases "eval_items (row x) g")
  have k: "map fst kvs = map fst (row x)"
    using keys_eval_items [of "row x" g] e by simp
  obtain ds g2 where r: "append_records row xs g1 = (ds, g2)"
    by (cases "append_records row xs g1")
  from Cons.prems e r have "d = dict_of_items kvs \<or> d \<in> set ds"
    by simp
  then show ?case
  proof
    assume "d = dict_of_items kvs"
    then show ?thesis by (simp add: keys_dict_of_items k)
  next
    assume "d \<in> set ds"
    then have "d \<in> set (fst (append_records row xs g1))" by (simp add: r)
    from Cons.IH [OF this] show ?thesis by auto
  qed
qed

lemma add_keys_known:
  "set ks \<subseteq> set acc \<Longrightarrow> foldl (\<lambda>acc k. add_key k acc) acc ks = acc"
  by (induction ks arbitrary: acc) (auto simp: add_key_def)

lemma add_keys_distinct:
  "distinct acc \<Longrightarrow> distinct (foldl (\<lambda>acc k. add_key k acc) acc ks)"
  by (induction ks arbitrary: acc) (auto simp: add_key_def)

lemma add_keys_fresh:
  "distinct ks \<Longrightarrow> set ks \<inter> set acc = {} \<Longrightarrow>
     foldl (\<lambda>acc k. add_key k acc) acc ks = acc @ ks"
  by (induction ks arbitrary: acc) (auto simp: add_key_def)

lemma distinct_literal_keys:
  "distinct (literal_keys ks)"
  by (simp add: literal_keys_def add_keys_distinct)

lemma literal_keys_idem:
  "literal_keys (literal_keys ks) = literal_keys ks"
  using add_keys_fresh [of "literal_keys ks" "[]"] distinct_literal_keys [of ks]
  by (simp add: literal_keys_def)

lemma record_columns_same_keys:
  "\<forall>d \<in> set ds. map fst d = K \<Longrightarrow> set K \<subseteq> set acc \<Longrightarrow>
     foldl (\<lambda>ks d. foldl (\<lambda>ks k. add_key k ks) ks (map fst d)) acc ds = acc"
  by (induction ds arbitrary: acc) (auto simp: add_keys_known)

lemma record_columns_uniform:
  assumes "ds \<noteq> []" and "\<forall>d \<in> set ds. map fst d = literal_keys ks"
  shows "record_columns ds = literal_keys ks"
proof -
  obtain d ds' where ds: "ds = d # ds'"
    using assms(1) by (cases ds) auto
  have d: "map fst d = literal_keys ks" and rest: "\<forall>d \<in> set ds'. map fst d = literal_keys ks"
    using assms(2) ds by auto
  have first: "foldl (\<lambda>ks k. add_key k ks) [] (map fst d) = literal_keys ks"
    using literal_keys_idem [of ks] by (simp add: d literal_keys_def)
  show ?thesis
    using record_columns_same_keys [OF rest, of "literal_keys ks"]
    by (simp add: record_columns_def ds first)
qed

lemma DataFrame_of_loop:
  assumes "xs \<noteq> []" and "\<forall>x. map fst (row x) = ks"
  shows "columns (DataFrame (fst (append_records row xs g))) = literal_keys ks"
    and "length (rows (DataFrame (fst (append_records row xs g)))) = length xs"
proof -
  let ?ds = "fst (append_records row xs g)"
  have ne: "?ds \<noteq> []"
    using length_append_records [of row xs g] assms(1) by auto
  have "\<forall>d \<in> set ?ds. map fst d = literal_keys ks"
    using keys_append_records [of _ row xs g] assms(2) by auto
  from record_columns_uniform [OF ne this]
  show "columns (DataFrame ?ds) = literal_keys ks"
    by (simp add: DataFrame_def)
  show "length (rows (DataFrame ?ds)) = length xs"
    by (simp add: DataFrame_def length_append_records)
qed

subsection \<open>The shape of each mock table\<close>

lemma mock_volume_columns:
  "columns (fst (mock_volume_df g)) =
     [''total_reports'', ''serious_reports'', ''fatal_reports'', ''countries_affected'',
     ''report_month'']"
proof -
  have n: "length (date_range 12 ''M'') = 12"
    by (simp del: upt_rec_numeral add: date_range_def)
  have ne: "date_range 12 ''M'' \<noteq> []"
    using n by auto
  have k: "\<forall>x. map fst (volume_record x) =
     [''total_reports'', ''serious_reports'', ''fatal_reports'', ''countries_affected'',
     ''report_month'']"
    by (simp add: volume_record_def)
  have lk: "literal_keys
     [''total_reports'', ''serious_reports'', ''fatal_reports'', ''countries_affected'',
     ''report_month''] =
     [''total_reports'', ''serious_reports'', ''fatal_reports'', ''countries_affected'',
     ''report_month'']"
    by (simp add: literal_keys_def add_key_def)
  have "columns (fst (mock_volume_df g)) = columns (DataFrame (fst (append_records (volume_record) (date_range 12 ''M'') g)))"
    by (simp only: mock_volume_df_def split_beta fst_conv)
  then show ?thesis
    by (simp only: DataFrame_of_loop(1) [OF ne k] lk)
qed

lemma mock_volume_len:
  "len (fst (mock_volume_df g)) = 12"
proof -
  have n: "length (date_range 12 ''M'') = 12"
    by (simp del: upt_rec_numeral add: date_range_def)
  have "len (fst (mock_volume_df g)) = length (rows (DataFrame (fst (append_records (volume_record) (date_range 12 ''M'') g))))"
    by (simp only: mock_volume_df_def split_beta fst_conv len_def)
  also have "\<dots> = length (date_range 12 ''M'')"
    by (simp only: DataFrame_def dataframe.simps length_map length_append_records)
  finally show ?thesis
    by (simp only: n)
qed

lemma mock_top_drugs_columns:
  "columns (fst (mock_top_drugs_df g)) =
     [''medicinalproduct'', ''generic_name'', ''report_count'', ''recovered_count'',
     ''fatal_count'', ''avg_age'', ''male_count'', ''female_count'']"
proof -
  have n: "length (drugs) = 10"
    by (simp del: upt_rec_numeral add: drugs_def)
  have ne: "drugs \<noteq> []"
    using n by auto
  have k: "\<forall>x. map fst (top_drugs_record x) =
     [''medicinalproduct'', ''generic_name'', ''report_count'', ''recovered_count'',
     ''fatal_count'', ''avg_age'', ''male_count'', ''female_count'']"
    by (simp add: top_drugs_record_def)
  have lk: "literal_keys
     [''medicinalproduct'', ''generic_name'', ''report_count'', ''recovered_count'',
     ''fatal_count'', ''avg_age'', ''male_count'', ''female_count''] =
     [''medicinalproduct'', ''generic_name'', ''report_count'', ''recovered_count'',
     ''fatal_count'', ''avg_age'', ''male_count'', ''female_count'']"
    by (simp add: literal_keys_def add_key_def)
  have "columns (fst (mock_top_drugs_df g)) = columns (DataFrame (fst (append_records (top_drugs_record) (drugs) g)))"
    by (simp only: mock_top_drugs_df_def split_beta fst_conv)
  then show ?thesis
    by (simp only: DataFrame_of_loop(1) [OF ne k] lk)
qed

lemma mock_top_drugs_len:
  "len (fst (mock_top_drugs_df g)) = 10"
proof -
  have n: "length (drugs) = 10"
    by (simp del: upt_rec_numeral add: drugs_def)
  have "len (fst (mock_top_drugs_df g)) = length (rows (DataFrame (fst (append_records (top_drugs_record) (drugs) g))))"
    by (simp only: mock_top_drugs_df_def split_beta fst_conv len_def)
  also have "\<dots> = length (drugs)"
    by (simp only: DataFrame_def dataframe.simps length_map length_append_records)
  finally show ?thesis
    by (simp only: n)
qed

lemma mock_global_dist_columns:
  "columns (fst (mock_global_dist_df g)) =
     [''occurcountry'', ''report_count'', ''serious_reports'', ''fatal_reports'',
     ''unique_serious_reports'']"
proof -
  have n: "length (countries) = 10"
    by (simp del: upt_rec_numeral add: countries_def)
  have ne: "countries \<noteq> []"
    using n by auto
  have k: "\<forall>x. map fst (global_dist_record x) =
     [''occurcountry'', ''report_count'', ''serious_reports'', ''fatal_reports'',
     ''unique_serious_reports'']"
    by (simp add: global_dist_record_def)
  have lk: "literal_keys
     [''occurcountry'', ''report_count'', ''serious_reports'', ''fatal_reports'',
     ''unique_serious_reports''] =
     [''occurcountry'', ''report_count'', ''serious_reports'', ''fatal_reports'',
     ''unique_serious_reports'']"
    by (simp add: literal_keys_def add_key_def)
  have "columns (fst (mock_global_dist_df g)) = columns (DataFrame (fst (append_records (global_dist_record) (countries) g)))"
    by (simp only: mock_global_dist_df_def split_beta fst_conv)
  then show ?thesis
    by (simp only: DataFrame_of_loop(1) [OF ne k] lk)
qed

lemma mock_global_dist_len:
  "len (fst (mock_global_dist_df g)) = 10"
proof -
  have n: "length (countries) = 10"
    by (simp del: upt_rec_numeral add: countries_def)
  have "len (fst (mock_global_dist_df g)) = length (rows (DataFrame (fst (append_records (global_dist_record) (countries) g))))"
    by (simp only: mock_global_dist_df_def split_beta fst_conv len_def)
  also have "\<dots> = length (countries)"
    by (simp only: DataFrame_def dataframe.simps length_map length_append_records)
  finally show ?thesis
    by (simp only: n)
qed

lemma mock_trends_columns:
  "columns (fst (mock_trends_df g)) =
     [''receivedate'', ''total_reports'', ''serious_reports'', ''fatal_reports'',
     ''hospitalization_reports'']"
proof -
  have n: "length (date_range 26 ''W'') = 26"
    by (simp del: upt_rec_numeral add: date_range_def)
  have ne: "date_range 26 ''W'' \<noteq> []"
    using n by auto
  have k: "\<forall>x. map fst (trends_record x) =
     [''receivedate'', ''total_reports'', ''serious_reports'', ''fatal_reports'',
     ''hospitalization_reports'']"
    by (simp add: trends_record_def)
  have lk: "literal_keys
     [''receivedate'', ''total_reports'', ''serious_reports'', ''fatal_reports'',
     ''hospitalization_reports''] =
     [''receivedate'', ''total_reports'', ''serious_reports'', ''fatal_reports'',
     ''hospitalization_reports'']"
    by (simp add: literal_keys_def add_key_def)
  have "columns (fst (mock_trends_df g)) = columns (DataFrame (fst (append_records (trends_record) (date_range 26 ''W'') g)))"
    by (simp only: mock_trends_df_def split_beta fst_conv)
  then show ?thesis
    by (simp only: DataFrame_of_loop(1) [OF ne k] lk)
qed

lemma mock_trends_len:
  "len (fst (mock_trends_df g)) = 26"
proof -
  have n: "length (date_range 26 ''W'') = 26"
    by (simp del: upt_rec_numeral add: date_range_def)
  have "len (fst (mock_trends_df g)) = length (rows (DataFrame (fst (append_records (trends_record) (date_range 26 ''W'') g))))"
    by (simp only: mock_trends_df_def split_beta fst_conv len_def)
  also have "\<dots> = length (date_range 26 ''W'')"
    by (simp only: DataFrame_def dataframe.simps length_map length_append_records)
  finally show ?thesis
    by (simp only: n)
qed

lemma mock_suspect_drugs_columns:
  "columns (fst (mock_suspect_drugs_df g)) =
     [''medicinalproduct'', ''generic_name'', ''drugcharacterization'', ''report_count'',
     ''recovered_count'', ''fatal_count'', ''unique_reports'']"
proof -
  have n: "length (take 8 drugs) = 8"
    by (simp del: upt_rec_numeral add: drugs_def)
  have ne: "take 8 drugs \<noteq> []"
    using n by auto
  have k: "\<forall>x. map fst (suspect_drugs_record x) =
     [''medicinalproduct'', ''generic_name'', ''drugcharacterization'', ''report_count'',
     ''recovered_count'', ''fatal_count'', ''unique_reports'']"
    by (simp add: suspect_drugs_record_def)
  have lk: "literal_keys
     [''medicinalproduct'', ''generic_name'', ''drugcharacterization'', ''report_count'',
     ''recovered_count'', ''fatal_count'', ''unique_reports''] =
     [''medicinalproduct'', ''generic_name'', ''drugcharacterization'', ''report_count'',
     ''recovered_count'', ''fatal_count'', ''unique_reports'']"
    by (simp add: literal_keys_def add_key_def)
  have "columns (fst (mock_suspect_drugs_df g)) = columns (DataFrame (fst (append_records (suspect_drugs_record) (take 8 drugs) g)))"
    by (simp only: mock_suspect_drugs_df_def split_beta fst_conv)
  then show ?thesis
    by (simp only: DataFrame_of_loop(1) [OF ne k] lk)
qed

lemma mock_suspect_drugs_len:
  "len (fst (mock_suspect_drugs_df g)) = 8"
proof -
  have n: "length (take 8 drugs) = 8"
    by (simp del: upt_rec_numeral add: drugs_def)
  have "len (fst (mock_suspect_drugs_df g)) = length (rows (DataFrame (fst (append_records (suspect_drugs_record) (take 8 drugs) g))))"
    by (simp only: mock_suspect_drugs_df_def split_beta fst_conv len_def)
  also have "\<dots> = length (take 8 drugs)"
    by (simp only: DataFrame_def dataframe.simps length_map length_append_records)
  finally show ?thesis
    by (simp only: n)
qed

lemma mock_exec_columns:
  "columns (fst (mock_exec_df clk g)) =
     [''month_date'', ''year'', ''month'', ''encounter_count'', ''unique_patients'',
     ''total_revenue'', ''avg_cost_per_encounter'', ''total_payer_coverage'',
     ''total_patient_payment'', ''avg_coverage_percentage'', ''encounter_class'',
     ''cost_category'', ''encounter_day_name'', ''state'']"
proof -
  have n: "length ([0..<24]) = 24"
    by (simp del: upt_rec_numeral)
  have ne: "[0..<24] \<noteq> []"
    using n by auto
  have k: "\<forall>x. map fst (exec_record clk x) =
     [''month_date'', ''year'', ''month'', ''encounter_count'', ''unique_patients'',
     ''total_revenue'', ''avg_cost_per_encounter'', ''total_payer_coverage'',
     ''total_patient_payment'', ''avg_coverage_percentage'', ''encounter_class'',
     ''cost_category'', ''encounter_day_name'', ''state'']"
    by (simp add: exec_record_def)
  have lk: "literal_keys
     [''month_date'', ''year'', ''month'', ''encounter_count'', ''unique_patients'',
     ''total_revenue'', ''avg_cost_per_encounter'', ''total_payer_coverage'',
     ''total_patient_payment'', ''avg_coverage_percentage'', ''encounter_class'',
     ''cost_category'', ''encounter_day_name'', ''state''] =
     [''month_date'', ''year'', ''month'', ''encounter_count'', ''unique_patients'',
     ''total_revenue'', ''avg_cost_per_encounter'', ''total_payer_coverage'',
     ''total_patient_payment'', ''avg_coverage_percentage'', ''encounter_class'',
     ''cost_category'', ''encounter_day_name'', ''state'']"
    by (simp add: literal_keys_def add_key_def)
  have "columns (fst (mock_exec_df clk g)) = columns (DataFrame (fst (append_records (exec_record clk) ([0..<24]) g)))"
    by (simp only: mock_exec_df_def split_beta fst_conv)
  then show ?thesis
    by (simp only: DataFrame_of_loop(1) [OF ne k] lk)
qed

lemma mock_exec_len:
  "len (fst (mock_exec_df clk g)) = 24"
proof -
  have n: "length ([0..<24]) = 24"
    by (simp del: upt_rec_numeral)
  have "len (fst (mock_exec_df clk g)) = length (rows (DataFrame (fst (append_records (exec_record clk) ([0..<24]) g))))"
    by (simp only: mock_exec_df_def split_beta fst_conv len_def)
  also have "\<dots> = length ([0..<24])"
    by (simp only: DataFrame_def dataframe.simps length_map length_append_records)
  finally show ?thesis
    by (simp only: n)
qed

lemma mock_patient_columns:
  "columns (fst (mock_patient_df g)) =
     [''patient_id'', ''full_name'', ''age'', ''age_group'', ''gender'', ''gender_full'',
     ''race'', ''ethnicity'', ''marital_status'', ''state'', ''county'', ''city'',
     ''zip'', ''income'', ''income_level'', ''healthcare_expenses'',
     ''healthcare_coverage'', ''coverage_tier'', ''is_alive'', ''total_encounters'',
     ''total_medical_costs'', ''avg_cost_per_encounter'', ''total_out_of_pocket'']"
proof -
  have n: "length ([0..<1000]) = 1000"
    by (simp del: upt_rec_numeral)
  have ne: "[0..<1000] \<noteq> []"
    using n by auto
  have k: "\<forall>x. map fst (patient_record x) =
     [''patient_id'', ''full_name'', ''age'', ''age_group'', ''gender'', ''gender_full'',
     ''race'', ''ethnicity'', ''marital_status'', ''state'', ''county'', ''city'',
     ''zip'', ''income'', ''income_level'', ''healthcare_expenses'',
     ''healthcare_coverage'', ''coverage_tier'', ''is_alive'', ''total_encounters'',
     ''total_medical_costs'', ''avg_cost_per_encounter'', ''total_out_of_pocket'']"
    by (simp add: patient_record_def)
  have lk: "literal_keys
     [''patient_id'', ''full_name'', ''age'', ''age_group'', ''gender'', ''gender_full'',
     ''race'', ''ethnicity'', ''marital_status'', ''state'', ''county'', ''city'',
     ''zip'', ''income'', ''income_level'', ''healthcare_expenses'',
     ''healthcare_coverage'', ''coverage_tier'', ''is_alive'', ''total_encounters'',
     ''total_medical_costs'', ''avg_cost_per_encounter'', ''total_out_of_pocket''] =
     [''patient_id'', ''full_name'', ''age'', ''age_group'', ''gender'', ''gender_full'',
     ''race'', ''ethnicity'', ''marital_status'', ''state'', ''county'', ''city'',
     ''zip'', ''income'', ''income_level'', ''healthcare_expenses'',
     ''healthcare_coverage'', ''coverage_tier'', ''is_alive'', ''total_encounters'',
     ''total_medical_costs'', ''avg_cost_per_encounter'', ''total_out_of_pocket'']"
    by (simp add: literal_keys_def add_key_def)
  have "columns (fst (mock_patient_df g)) = columns (DataFrame (fst (append_records (patient_record) ([0..<1000]) g)))"
    by (simp only: mock_patient_df_def split_beta fst_conv)
  then show ?thesis
    by (simp only: DataFrame_of_loop(1) [OF ne k] lk)
qed

lemma mock_patient_len:
  "len (fst (mock_patient_df g)) = 1000"
proof -
  have n: "length ([0..<1000]) = 1000"
    by (simp del: upt_rec_numeral)
  have "len (fst (mock_patient_df g)) = length (rows (DataFrame (fst (append_records (patient_record) ([0..<1000]) g))))"
    by (simp only: mock_patient_df_def split_beta fst_conv len_def)
  also have "\<dots> = length ([0..<1000])"
    by (simp only: DataFrame_def dataframe.simps length_map length_append_records)
  finally show ?thesis
    by (simp only: n)
qed

lemma mock_encounter_columns:
  "columns (fst (mock_encounter_df clk g)) =
     [''encounter_id'', ''encounter_date'', ''encounter_year'', ''encounter_month'',
     ''encounter_quarter'', ''encounter_day_of_week'', ''encounter_day_name'',
     ''encounter_class'', ''encounter_code'', ''encounter_description'',
     ''reason_code'', ''reason_description'', ''cost_category'', ''duration_minutes'',
     ''duration_hours'', ''base_encounter_cost'', ''total_claim_cost'',
     ''payer_coverage'', ''patient_out_of_pocket'', ''payer_coverage_percentage'',
     ''patient_id'', ''provider_id'', ''payer_id'', ''organization_id'', ''age'',
     ''age_group'', ''gender_full'', ''state'', ''income_level'', ''coverage_tier'']"
proof -
  have n: "length ([0..<5000]) = 5000"
    by (simp del: upt_rec_numeral)
  have ne: "[0..<5000] \<noteq> []"
    using n by auto
  have k: "\<forall>x. map fst (encounter_record clk x) =
     [''encounter_id'', ''encounter_date'', ''encounter_year'', ''encounter_month'',
     ''encounter_quarter'', ''encounter_day_of_week'', ''encounter_day_name'',
     ''encounter_class'', ''encounter_code'', ''encounter_description'',
     ''reason_code'', ''reason_description'', ''cost_category'', ''duration_minutes'',
     ''duration_hours'', ''base_encounter_cost'', ''total_claim_cost'',
     ''payer_coverage'', ''patient_out_of_pocket'', ''payer_coverage_percentage'',
     ''patient_id'', ''provider_id'', ''payer_id'', ''organization_id'', ''age'',
     ''age_group'', ''gender_full'', ''state'', ''income_level'', ''coverage_tier'']"
    by (simp add: encounter_record_def)
  have lk: "literal_keys
     [''encounter_id'', ''encounter_date'', ''encounter_year'', ''encounter_month'',
     ''encounter_quarter'', ''encounter_day_of_week'', ''encounter_day_name'',
     ''encounter_class'', ''encounter_code'', ''encounter_description'',
     ''reason_code'', ''reason_description'', ''cost_category'', ''duration_minutes'',
     ''duration_hours'', ''base_encounter_cost'', ''total_claim_cost'',
     ''payer_coverage'', ''patient_out_of_pocket'', ''payer_coverage_percentage'',
     ''patient_id'', ''provider_id'', ''payer_id'', ''organization_id'', ''age'',
     ''age_group'', ''gender_full'', ''state'', ''income_level'', ''coverage_tier''] =
     [''encounter_id'', ''encounter_date'', ''encounter_year'', ''encounter_month'',
     ''encounter_quarter'', ''encounter_day_of_week'', ''encounter_day_name'',
     ''encounter_class'', ''encounter_code'', ''encounter_description'',
     ''reason_code'', ''reason_description'', ''cost_category'', ''duration_minutes'',
     ''duration_hours'', ''base_encounter_cost'', ''total_claim_cost'',
     ''payer_coverage'', ''patient_out_of_pocket'', ''payer_coverage_percentage'',
     ''patient_id'', ''provider_id'', ''payer_id'', ''organization_id'', ''age'',
     ''age_group'', ''gender_full'', ''state'', ''income_level'', ''coverage_tier'']"
    by (simp add: literal_keys_def add_key_def)
  have "columns (fst (mock_encounter_df clk g)) = columns (DataFrame (fst (append_records (encounter_record clk) ([0..<5000]) g)))"
    by (simp only: mock_encounter_df_def split_beta fst_conv)
  then show ?thesis
    by (simp only: DataFrame_of_loop(1) [OF ne k] lk)
qed

lemma mock_encounter_len:
  "len (fst (mock_encounter_df clk g)) = 5000"
proof -
  have n: "length ([0..<5000]) = 5000"
    by (simp del: upt_rec_numeral)
  have "len (fst (mock_encounter_df clk g)) = length (rows (DataFrame (fst (append_records (encounter_record clk) ([0..<5000]) g))))"
    by (simp only: mock_encounter_df_def split_beta fst_conv len_def)
  also have "\<dots> = length ([0..<5000])"
    by (simp only: DataFrame_def dataframe.simps length_map length_append_records)
  finally show ?thesis
    by (simp only: n)
qed

lemma mock_claims_columns:
  "columns (fst (mock_claims_df clk g)) =
     [''claim_id'', ''patient_id'', ''provider_id'', ''service_date'', ''service_year'',
     ''service_month'', ''service_quarter'', ''current_illness_date'',
     ''primary_insurance_id'', ''secondary_insurance_id'', ''insurance_coverage_type'',
     ''primary_status'', ''secondary_status'', ''patient_status'',
     ''primary_outstanding'', ''secondary_outstanding'', ''patient_outstanding'',
     ''total_outstanding'', ''outstanding_risk_level'', ''primary_last_billed_date'',
     ''secondary_last_billed_date'', ''patient_last_billed_date'',
     ''primary_claim_type'', ''secondary_claim_type'', ''age'', ''age_group'',
     ''gender_full'', ''state'', ''income_level'', ''coverage_tier'', ''diagnosis1'',
     ''diagnosis2'', ''diagnosis3'', ''diagnosis4'', ''diagnosis5'', ''diagnosis6'',
     ''diagnosis7'', ''diagnosis8'', ''diagnosis_count'']"
proof -
  have n: "length ([0..<2000]) = 2000"
    by (simp del: upt_rec_numeral)
  have ne: "[0..<2000] \<noteq> []"
    using n by auto
  have k: "\<forall>x. map fst (claims_record clk x) =
     [''claim_id'', ''patient_id'', ''provider_id'', ''service_date'', ''service_year'',
     ''service_month'', ''service_quarter'', ''current_illness_date'',
     ''primary_insurance_id'', ''secondary_insurance_id'', ''insurance_coverage_type'',
     ''primary_status'', ''secondary_status'', ''patient_status'',
     ''primary_outstanding'', ''secondary_outstanding'', ''patient_outstanding'',
     ''total_outstanding'', ''outstanding_risk_level'', ''primary_last_billed_date'',
     ''secondary_last_billed_date'', ''patient_last_billed_date'',
     ''primary_claim_type'', ''secondary_claim_type'', ''age'', ''age_group'',
     ''gender_full'', ''state'', ''income_level'', ''coverage_tier'', ''diagnosis1'',
     ''diagnosis2'', ''diagnosis3'', ''diagnosis4'', ''diagnosis5'', ''diagnosis6'',
     ''diagnosis7'', ''diagnosis8'', ''diagnosis_count'']"
    by (simp add: claims_record_def)
  have lk: "literal_keys
     [''claim_id'', ''patient_id'', ''provider_id'', ''service_date'', ''service_year'',
     ''service_month'', ''service_quarter'', ''current_illness_date'',
     ''primary_insurance_id'', ''secondary_insurance_id'', ''insurance_coverage_type'',
     ''primary_status'', ''secondary_status'', ''patient_status'',
     ''primary_outstanding'', ''secondary_outstanding'', ''patient_outstanding'',
     ''total_outstanding'', ''outstanding_risk_level'', ''primary_last_billed_date'',
     ''secondary_last_billed_date'', ''patient_last_billed_date'',
     ''primary_claim_type'', ''secondary_claim_type'', ''age'', ''age_group'',
     ''gender_full'', ''state'', ''income_level'', ''coverage_tier'', ''diagnosis1'',
     ''diagnosis2'', ''diagnosis3'', ''diagnosis4'', ''diagnosis5'', ''diagnosis6'',
     ''diagnosis7'', ''diagnosis8'', ''diagnosis_count''] =
     [''claim_id'', ''patient_id'', ''provider_id'', ''service_date'', ''service_year'',
     ''service_month'', ''service_quarter'', ''current_illness_date'',
     ''primary_insurance_id'', ''secondary_insurance_id'', ''insurance_coverage_type'',
     ''primary_status'', ''secondary_status'', ''patient_status'',
     ''primary_outstanding'', ''secondary_outstanding'', ''patient_outstanding'',
     ''total_outstanding'', ''outstanding_risk_level'', ''primary_last_billed_date'',
     ''secondary_last_billed_date'', ''patient_last_billed_date'',
     ''primary_claim_type'', ''secondary_claim_type'', ''age'', ''age_group'',
     ''gender_full'', ''state'', ''income_level'', ''coverage_tier'', ''diagnosis1'',
     ''diagnosis2'', ''diagnosis3'', ''diagnosis4'', ''diagnosis5'', ''diagnosis6'',
     ''diagnosis7'', ''diagnosis8'', ''diagnosis_count'']"
    by (simp add: literal_keys_def add_key_def)
  have "columns (fst (mock_claims_df clk g)) = columns (DataFrame (fst (append_records (claims_record clk) ([0..<2000]) g)))"
    by (simp only: mock_claims_df_def split_beta fst_conv)
  then show ?thesis
    by (simp only: DataFrame_of_loop(1) [OF ne k] lk)
qed

lemma mock_claims_len:
  "len (fst (mock_claims_df clk g)) = 2000"
proof -
  have n: "length ([0..<2000]) = 2000"
    by (simp del: upt_rec_numeral)
  have "len (fst (mock_claims_df clk g)) = length (rows (DataFrame (fst (append_records (claims_record clk) ([0..<2000]) g))))"
    by (simp only: mock_claims_df_def split_beta fst_conv len_def)
  also have "\<dots> = length ([0..<2000])"
    by (simp only: DataFrame_def dataframe.simps length_map length_append_records)
  finally show ?thesis
    by (simp only: n)
qed

lemma mock_financial_columns:
  "columns (fst (mock_financial_df clk g)) =
     [''encounter_date'', ''encounter_year'', ''encounter_month'', ''encounter_quarter'',
     ''encounter_class'', ''cost_category'', ''patient_id'', ''provider_id'',
     ''payer_id'', ''base_encounter_cost'', ''total_claim_cost'', ''payer_coverage'',
     ''patient_out_of_pocket'', ''payer_coverage_percentage'', ''state'', ''county'',
     ''age_group'', ''gender_full'', ''income_level'', ''income'',
     ''healthcare_expenses'', ''healthcare_coverage'', ''total_claim_outstanding'',
     ''total_claims'', ''monthly_total_revenue'', ''monthly_payer_coverage'',
     ''monthly_patient_payment'', ''state_total_revenue'', ''state_payer_coverage'',
     ''state_patient_payment'', ''class_total_revenue'', ''payer_total_revenue'',
     ''avg_coverage_by_payer'', ''avg_coverage_by_income'', ''avg_coverage_by_age'',
     ''avg_cost_by_class'', ''avg_cost_by_provider'', ''patient_burden_percentage'',
     ''financial_burden_category'']"
proof -
  have n: "length ([0..<1000]) = 1000"
    by (simp del: upt_rec_numeral)
  have ne: "[0..<1000] \<noteq> []"
    using n by auto
  have k: "\<forall>x. map fst (financial_record clk x) =
     [''encounter_date'', ''encounter_year'', ''encounter_month'', ''encounter_quarter'',
     ''encounter_class'', ''cost_category'', ''patient_id'', ''provider_id'',
     ''payer_id'', ''base_encounter_cost'', ''total_claim_cost'', ''payer_coverage'',
     ''patient_out_of_pocket'', ''payer_coverage_percentage'', ''state'', ''county'',
     ''age_group'', ''gender_full'', ''income_level'', ''income'',
     ''healthcare_expenses'', ''healthcare_coverage'', ''total_claim_outstanding'',
     ''total_claims'', ''monthly_total_revenue'', ''monthly_payer_coverage'',
     ''monthly_patient_payment'', ''state_total_revenue'', ''state_payer_coverage'',
     ''state_patient_payment'', ''class_total_revenue'', ''payer_total_revenue'',
     ''monthly_payer_coverage'', ''monthly_patient_payment'', ''avg_coverage_by_payer'',
     ''avg_coverage_by_income'', ''avg_coverage_by_age'', ''avg_cost_by_class'',
     ''avg_cost_by_provider'', ''patient_burden_percentage'',
     ''financial_burden_category'']"
    by (simp add: financial_record_def)
  have lk: "literal_keys
     [''encounter_date'', ''encounter_year'', ''encounter_month'', ''encounter_quarter'',
     ''encounter_class'', ''cost_category'', ''patient_id'', ''provider_id'',
     ''payer_id'', ''base_encounter_cost'', ''total_claim_cost'', ''payer_coverage'',
     ''patient_out_of_pocket'', ''payer_coverage_percentage'', ''state'', ''county'',
     ''age_group'', ''gender_full'', ''income_level'', ''income'',
     ''healthcare_expenses'', ''healthcare_coverage'', ''total_claim_outstanding'',
     ''total_claims'', ''monthly_total_revenue'', ''monthly_payer_coverage'',
     ''monthly_patient_payment'', ''state_total_revenue'', ''state_payer_coverage'',
     ''state_patient_payment'', ''class_total_revenue'', ''payer_total_revenue'',
     ''monthly_payer_coverage'', ''monthly_patient_payment'', ''avg_coverage_by_payer'',
     ''avg_coverage_by_income'', ''avg_coverage_by_age'', ''avg_cost_by_class'',
     ''avg_cost_by_provider'', ''patient_burden_percentage'',
     ''financial_burden_category''] =
     [''encounter_date'', ''encounter_year'', ''encounter_month'', ''encounter_quarter'',
     ''encounter_class'', ''cost_category'', ''patient_id'', ''provider_id'',
     ''payer_id'', ''base_encounter_cost'', ''total_claim_cost'', ''payer_coverage'',
     ''patient_out_of_pocket'', ''payer_coverage_percentage'', ''state'', ''county'',
     ''age_group'', ''gender_full'', ''income_level'', ''income'',
     ''healthcare_expenses'', ''healthcare_coverage'', ''total_claim_outstanding'',
     ''total_claims'', ''monthly_total_revenue'', ''monthly_payer_coverage'',
     ''monthly_patient_payment'', ''state_total_revenue'', ''state_payer_coverage'',
     ''state_patient_payment'', ''class_total_revenue'', ''payer_total_revenue'',
     ''avg_coverage_by_payer'', ''avg_coverage_by_income'', ''avg_coverage_by_age'',
     ''avg_cost_by_class'', ''avg_cost_by_provider'', ''patient_burden_percentage'',
     ''financial_burden_category'']"
    by (simp add: literal_keys_def add_key_def)
  have "columns (fst (mock_financial_df clk g)) = columns (DataFrame (fst (append_records (financial_record clk) ([0..<1000]) g)))"
    by (simp only: mock_financial_df_def split_beta fst_conv)
  then show ?thesis
    by (simp only: DataFrame_of_loop(1) [OF ne k] lk)
qed

lemma mock_financial_len:
  "len (fst (mock_financial_df clk g)) = 1000"
proof -
  have n: "length ([0..<1000]) = 1000"
    by (simp del: upt_rec_numeral)
  have "len (fst (mock_financial_df clk g)) = length (rows (DataFrame (fst (append_records (financial_record clk) ([0..<1000]) g))))"
    by (simp only: mock_financial_df_def split_beta fst_conv len_def)
  also have "\<dots> = length ([0..<1000])"
    by (simp only: DataFrame_def dataframe.simps length_map length_append_records)
  finally show ?thesis
    by (simp only: n)
qed

lemma mock_geo_columns:
  "columns (fst (mock_geo_df g)) =
     [''state'', ''county'', ''city'', ''patient_count'', ''avg_age'', ''avg_income'',
     ''avg_coverage_rate'', ''total_expenses'', ''avg_expenses_per_patient'',
     ''encounter_count'', ''total_medical_costs'', ''avg_cost_per_encounter'',
     ''total_insurance_paid'', ''total_patient_paid'', ''avg_coverage_percentage'',
     ''unique_encounter_patients'', ''claim_count'', ''total_outstanding'',
     ''avg_outstanding_per_claim'', ''unique_claim_patients'',
     ''encounters_per_patient'', ''medical_cost_per_patient'',
     ''outstanding_per_patient'', ''outstanding_percentage'', ''geographic_risk_level'']"
proof -
  have n: "length (geo_loop) = 125"
    by (simp del: upt_rec_numeral add: geo_loop_def states_def)
  have ne: "geo_loop \<noteq> []"
    using n by auto
  have k: "\<forall>x. map fst (geo_record x) =
     [''state'', ''county'', ''city'', ''patient_count'', ''avg_age'', ''avg_income'',
     ''avg_coverage_rate'', ''total_expenses'', ''avg_expenses_per_patient'',
     ''encounter_count'', ''total_medical_costs'', ''avg_cost_per_encounter'',
     ''total_insurance_paid'', ''total_patient_paid'', ''avg_coverage_percentage'',
     ''unique_encounter_patients'', ''claim_count'', ''total_outstanding'',
     ''avg_outstanding_per_claim'', ''unique_claim_patients'',
     ''encounters_per_patient'', ''medical_cost_per_patient'',
     ''outstanding_per_patient'', ''outstanding_percentage'', ''geographic_risk_level'']"
    by simp
  have lk: "literal_keys
     [''state'', ''county'', ''city'', ''patient_count'', ''avg_age'', ''avg_income'',
     ''avg_coverage_rate'', ''total_expenses'', ''avg_expenses_per_patient'',
     ''encounter_count'', ''total_medical_costs'', ''avg_cost_per_encounter'',
     ''total_insurance_paid'', ''total_patient_paid'', ''avg_coverage_percentage'',
     ''unique_encounter_patients'', ''claim_count'', ''total_outstanding'',
     ''avg_outstanding_per_claim'', ''unique_claim_patients'',
     ''encounters_per_patient'', ''medical_cost_per_patient'',
     ''outstanding_per_patient'', ''outstanding_percentage'', ''geographic_risk_level''] =
     [''state'', ''county'', ''city'', ''patient_count'', ''avg_age'', ''avg_income'',
     ''avg_coverage_rate'', ''total_expenses'', ''avg_expenses_per_patient'',
     ''encounter_count'', ''total_medical_costs'', ''avg_cost_per_encounter'',
     ''total_insurance_paid'', ''total_patient_paid'', ''avg_coverage_percentage'',
     ''unique_encounter_patients'', ''claim_count'', ''total_outstanding'',
     ''avg_outstanding_per_claim'', ''unique_claim_patients'',
     ''encounters_per_patient'', ''medical_cost_per_patient'',
     ''outstanding_per_patient'', ''outstanding_percentage'', ''geographic_risk_level'']"
    by (simp add: literal_keys_def add_key_def)
  have "columns (fst (mock_geo_df g)) = columns (DataFrame (fst (append_records (geo_record) (geo_loop) g)))"
    by (simp only: mock_geo_df_def split_beta fst_conv)
  then show ?thesis
    by (simp only: DataFrame_of_loop(1) [OF ne k] lk)
qed

lemma mock_geo_len:
  "len (fst (mock_geo_df g)) = 125"
proof -
  have n: "length (geo_loop) = 125"
    by (simp del: upt_rec_numeral add: geo_loop_def states_def)
  have "len (fst (mock_geo_df g)) = length (rows (DataFrame (fst (append_records (geo_record) (geo_loop) g))))"
    by (simp only: mock_geo_df_def split_beta fst_conv len_def)
  also have "\<dots> = length (geo_loop)"
    by (simp only: DataFrame_def dataframe.simps length_map length_append_records)
  finally show ?thesis
    by (simp only: n)
qed

section \<open>The fallback path\<close>

lemma mock_fda_shapes:
  "map shape (fda_tables (fst (mock_fda_data g))) =
     [Some ([''total_reports'', ''serious_reports'', ''fatal_reports'',
             ''countries_affected'', ''report_month''], 12),
      Some ([''medicinalproduct'', ''generic_name'', ''report_count'', ''recovered_count'',
             ''fatal_count'', ''avg_age'', ''male_count'', ''female_count''], 10),
      Some ([''occurcountry'', ''report_count'', ''serious_reports'', ''fatal_reports'',
             ''unique_serious_reports''], 10),
      Some ([''receivedate'', ''total_reports'', ''serious_reports'', ''fatal_reports'',
             ''hospitalization_reports''], 26),
      Some ([''medicinalproduct'', ''generic_name'', ''drugcharacterization'',
             ''report_count'', ''recovered_count'', ''fatal_count'', ''unique_reports''], 8)]"
  by (simp only: mock_fda_data_def split_beta fst_conv fda_tables.simps list.map shape_def
      option.map mock_volume_columns mock_volume_len mock_top_drugs_columns mock_top_drugs_len
      mock_global_dist_columns mock_global_dist_len mock_trends_columns mock_trends_len
      mock_suspect_drugs_columns mock_suspect_drugs_len)

lemma mock_healthcare_shapes:
  "map shape (healthcare_tables (fst (mock_healthcare_data clk g))) =
     [Some ([''month_date'', ''year'', ''month'', ''encounter_count'', ''unique_patients'',
             ''total_revenue'', ''avg_cost_per_encounter'', ''total_payer_coverage'',
             ''total_patient_payment'', ''avg_coverage_percentage'', ''encounter_class'',
             ''cost_category'', ''encounter_day_name'', ''state''], 24),
      Some ([''patient_id'', ''full_name'', ''age'', ''age_group'', ''gender'',
             ''gender_full'', ''race'', ''ethnicity'', ''marital_status'', ''state'',
             ''county'', ''city'', ''zip'', ''income'', ''income_level'',
             ''healthcare_expenses'', ''healthcare_coverage'', ''coverage_tier'',
             ''is_alive'', ''total_encounters'', ''total_medical_costs'',
             ''avg_cost_per_encounter'', ''total_out_of_pocket''], 1000),
      Some ([''encounter_id'', ''encounter_date'', ''encounter_year'', ''encounter_month'',
             ''encounter_quarter'', ''encounter_day_of_week'', ''encounter_day_name'',
             ''encounter_class'', ''encounter_code'', ''encounter_description'',
             ''reason_code'', ''reason_description'', ''cost_category'',
             ''duration_minutes'', ''duration_hours'', ''base_encounter_cost'',
             ''total_claim_cost'', ''payer_coverage'', ''patient_out_of_pocket'',
             ''payer_coverage_percentage'', ''patient_id'', ''provider_id'', ''payer_id'',
             ''organization_id'', ''age'', ''age_group'', ''gender_full'', ''state'',
             ''income_level'', ''coverage_tier''], 5000),
      Some ([''claim_id'', ''patient_id'', ''provider_id'', ''service_date'',
             ''service_year'', ''service_month'', ''service_quarter'',
             ''current_illness_date'', ''primary_insurance_id'', ''secondary_insurance_id'',
             ''insurance_coverage_type'', ''primary_status'', ''secondary_status'',
             ''patient_status'', ''primary_outstanding'', ''secondary_outstanding'',
             ''patient_outstanding'', ''total_outstanding'', ''outstanding_risk_level'',
             ''primary_last_billed_date'', ''secondary_last_billed_date'',
             ''patient_last_billed_date'', ''primary_claim_type'', ''secondary_claim_type'',
             ''age'', ''age_group'', ''gender_full'', ''state'', ''income_level'',
             ''coverage_tier'', ''diagnosis1'', ''diagnosis2'', ''diagnosis3'',
             ''diagnosis4'', ''diagnosis5'', ''diagnosis6'', ''diagnosis7'', ''diagnosis8'',
             ''diagnosis_count''], 2000),
      Some ([''encounter_date'', ''encounter_year'', ''encounter_month'',
             ''encounter_quarter'', ''encounter_class'', ''cost_category'', ''patient_id'',
             ''provider_id'', ''payer_id'', ''base_encounter_cost'', ''total_claim_cost'',
             ''payer_coverage'', ''patient_out_of_pocket'', ''payer_coverage_percentage'',
             ''state'', ''county'', ''age_group'', ''gender_full'', ''income_level'',
             ''income'', ''healthcare_expenses'', ''healthcare_coverage'',
             ''total_claim_outstanding'', ''total_claims'', ''monthly_total_revenue'',
             ''monthly_payer_coverage'', ''monthly_patient_payment'',
             ''state_total_revenue'', ''state_payer_coverage'', ''state_patient_payment'',
             ''class_total_revenue'', ''payer_total_revenue'', ''avg_coverage_by_payer'',
             ''avg_coverage_by_income'', ''avg_coverage_by_age'', ''avg_cost_by_class'',
             ''avg_cost_by_provider'', ''patient_burden_percentage'',
             ''financial_burden_category''], 1000),
      Some ([''state'', ''county'', ''city'', ''patient_count'', ''avg_age'',
             ''avg_income'', ''avg_coverage_rate'', ''total_expenses'',
             ''avg_expenses_per_patient'', ''encounter_count'', ''total_medical_costs'',
             ''avg_cost_per_encounter'', ''total_insurance_paid'', ''total_patient_paid'',
             ''avg_coverage_percentage'', ''unique_encounter_patients'', ''claim_count'',
             ''total_outstanding'', ''avg_outstanding_per_claim'',
             ''unique_claim_patients'', ''encounters_per_patient'',
             ''medical_cost_per_patient'', ''outstanding_per_patient'',
             ''outstanding_percentage'', ''geographic_risk_level''], 125)]"
  by (simp only: mock_healthcare_data_def split_beta fst_conv healthcare_tables.simps list.map
      shape_def option.map mock_exec_columns mock_exec_len mock_patient_columns mock_patient_len
      mock_encounter_columns mock_encounter_len mock_claims_columns mock_claims_len
      mock_financial_columns mock_financial_len mock_geo_columns mock_geo_len)

lemma fda_fallback:
  "volume_df = None \<or> top_drugs_df = None \<Longrightarrow>
     fda_dashboard_data_from volume_df top_drugs_df global_dist_df trends_df suspect_drugs_df g =
       (fst (mock_fda_data g),
        [StWarning ''Using mock data - database connection not available''],
        snd (mock_fda_data g))"
  by (auto simp: fda_dashboard_data_from_def split_beta)

lemma healthcare_fallback:
  "\<not> list_all (\<lambda>df. df \<noteq> None)
        [exec_df, patient_df, encounter_df, claims_df, financial_df, geo_df] \<Longrightarrow>
     healthcare_dashboard_data_from exec_df patient_df encounter_df claims_df financial_df geo_df
         clk g =
       Inr (fst (mock_healthcare_data clk g),
            [StWarning ''Using mock data - database connection not available''],
            snd (mock_healthcare_data clk g))"
  by (simp only: healthcare_dashboard_data_from_def split_beta if_False)

text \<open>
  Claim C4. On the fallback path every mock table has its fixed columns and its fixed number
  of rows, whatever the random draws and the clock are. Pipeline A falls back when the
  volume or the top-drugs loader gave \<open>None\<close>, Pipeline B when any of its six loaders did.
  In particular the mock volume table has 12 rows and the columns \<open>total_reports\<close>,
  \<open>serious_reports\<close>, \<open>fatal_reports\<close>, \<open>countries_affected\<close> and \<open>report_month\<close>. The
  financial table has 39 columns: two keys of its dict literal are written twice.
\<close>

theorem mock_tables_shape:
  "(volume_df = None \<or> top_drugs_df = None \<longrightarrow>
      map shape (fda_tables (fst (fda_dashboard_data_from volume_df top_drugs_df global_dist_df
          trends_df suspect_drugs_df g))) =
     [Some ([''total_reports'', ''serious_reports'', ''fatal_reports'',
             ''countries_affected'', ''report_month''], 12),
      Some ([''medicinalproduct'', ''generic_name'', ''report_count'', ''recovered_count'',
             ''fatal_count'', ''avg_age'', ''male_count'', ''female_count''], 10),
      Some ([''occurcountry'', ''report_count'', ''serious_reports'', ''fatal_reports'',
             ''unique_serious_reports''], 10),
      Some ([''receivedate'', ''total_reports'', ''serious_reports'', ''fatal_reports'',
             ''hospitalization_reports''], 26),
      Some ([''medicinalproduct'', ''generic_name'', ''drugcharacterization'',
             ''report_count'', ''recovered_count'', ''fatal_count'', ''unique_reports''], 8)])
   \<and> (\<not> list_all (\<lambda>df. df \<noteq> None)
          [exec_df, patient_df, encounter_df, claims_df, financial_df, geo_df] \<longrightarrow>
      (\<exists>bundle shown g''.
         healthcare_dashboard_data_from exec_df patient_df encounter_df claims_df financial_df
             geo_df clk g' = Inr (bundle, shown, g'')
         \<and> map shape (healthcare_tables bundle) =
     [Some ([''month_date'', ''year'', ''month'', ''encounter_count'', ''unique_patients'',
             ''total_revenue'', ''avg_cost_per_encounter'', ''total_payer_coverage'',
             ''total_patient_payment'', ''avg_coverage_percentage'', ''encounter_class'',
             ''cost_category'', ''encounter_day_name'', ''state''], 24),
      Some ([''patient_id'', ''full_name'', ''age'', ''age_group'', ''gender'',
             ''gender_full'', ''race'', ''ethnicity'', ''marital_status'', ''state'',
             ''county'', ''city'', ''zip'', ''income'', ''income_level'',
             ''healthcare_expenses'', ''healthcare_coverage'', ''coverage_tier'',
             ''is_alive'', ''total_encounters'', ''total_medical_costs'',
             ''avg_cost_per_encounter'', ''total_out_of_pocket''], 1000),
      Some ([''encounter_id'', ''encounter_date'', ''encounter_year'', ''encounter_month'',
             ''encounter_quarter'', ''encounter_day_of_week'', ''encounter_day_name'',
             ''encounter_class'', ''encounter_code'', ''encounter_description'',
             ''reason_code'', ''reason_description'', ''cost_category'',
             ''duration_minutes'', ''duration_hours'', ''base_encounter_cost'',
             ''total_claim_cost'', ''payer_coverage'', ''patient_out_of_pocket'',
             ''payer_coverage_percentage'', ''patient_id'', ''provider_id'', ''payer_id'',
             ''organization_id'', ''age'', ''age_group'', ''gender_full'', ''state'',
             ''income_level'', ''coverage_tier''], 5000),
      Some ([''claim_id'', ''patient_id'', ''provider_id'', ''service_date'',
             ''service_year'', ''service_month'', ''service_quarter'',
             ''current_illness_date'', ''primary_insurance_id'', ''secondary_insurance_id'',
             ''insurance_coverage_type'', ''primary_status'', ''secondary_status'',
             ''patient_status'', ''primary_outstanding'', ''secondary_outstanding'',
             ''patient_outstanding'', ''total_outstanding'', ''outstanding_risk_level'',
             ''primary_last_billed_date'', ''secondary_last_billed_date'',
             ''patient_last_billed_date'', ''primary_claim_type'', ''secondary_claim_type'',
             ''age'', ''age_group'', ''gender_full'', ''state'', ''income_level'',
             ''coverage_tier'', ''diagnosis1'', ''diagnosis2'', ''diagnosis3'',
             ''diagnosis4'', ''diagnosis5'', ''diagnosis6'', ''diagnosis7'', ''diagnosis8'',
             ''diagnosis_count''], 2000),
      Some ([''encounter_date'', ''encounter_year'', ''encounter_month'',
             ''encounter_quarter'', ''encounter_class'', ''cost_category'', ''patient_id'',
             ''provider_id'', ''payer_id'', ''base_encounter_cost'', ''total_claim_cost'',
             ''payer_coverage'', ''patient_out_of_pocket'', ''payer_coverage_percentage'',
             ''state'', ''county'', ''age_group'', ''gender_full'', ''income_level'',
             ''income'', ''healthcare_expenses'', ''healthcare_coverage'',
             ''total_claim_outstanding'', ''total_claims'', ''monthly_total_revenue'',
             ''monthly_payer_coverage'', ''monthly_patient_payment'',
             ''state_total_revenue'', ''state_payer_coverage'', ''state_patient_payment'',
             ''class_total_revenue'', ''payer_total_revenue'', ''avg_coverage_by_payer'',
             ''avg_coverage_by_income'', ''avg_coverage_by_age'', ''avg_cost_by_class'',
             ''avg_cost_by_provider'', ''patient_burden_percentage'',
             ''financial_burden_category''], 1000),
      Some ([''state'', ''county'', ''city'', ''patient_count'', ''avg_age'',
             ''avg_income'', ''avg_coverage_rate'', ''total_expenses'',
             ''avg_expenses_per_patient'', ''encounter_count'', ''total_medical_costs'',
             ''avg_cost_per_encounter'', ''total_insurance_paid'', ''total_patient_paid'',
             ''avg_coverage_percentage'', ''unique_encounter_patients'', ''claim_count'',
             ''total_outstanding'', ''avg_outstanding_per_claim'',
             ''unique_claim_patients'', ''encounters_per_patient'',
             ''medical_cost_per_patient'', ''outstanding_per_patient'',
             ''outstanding_percentage'', ''geographic_risk_level''], 125)]))"
proof (intro conjI impI)
  assume a: "volume_df = None \<or> top_drugs_df = None"
  show "map shape (fda_tables (fst (fda_dashboard_data_from volume_df top_drugs_df
      global_dist_df trends_df suspect_drugs_df g))) =
     [Some ([''total_reports'', ''serious_reports'', ''fatal_reports'',
             ''countries_affected'', ''report_month''], 12),
      Some ([''medicinalproduct'', ''generic_name'', ''report_count'', ''recovered_count'',
             ''fatal_count'', ''avg_age'', ''male_count'', ''female_count''], 10),
      Some ([''occurcountry'', ''report_count'', ''serious_reports'', ''fatal_reports'',
             ''unique_serious_reports''], 10),
      Some ([''receivedate'', ''total_reports'', ''serious_reports'', ''fatal_reports'',
             ''hospitalization_reports''], 26),
      Some ([''medicinalproduct'', ''generic_name'', ''drugcharacterization'',
             ''report_count'', ''recovered_count'', ''fatal_count'', ''unique_reports''], 8)]"
    by (simp only: fda_fallback [OF a] fst_conv mock_fda_shapes)
next
  assume b: "\<not> list_all (\<lambda>df. df \<noteq> None)
      [exec_df, patient_df, encounter_df, claims_df, financial_df, geo_df]"
  show "\<exists>bundle shown g''.
         healthcare_dashboard_data_from exec_df patient_df encounter_df claims_df financial_df
             geo_df clk g' = Inr (bundle, shown, g'')
         \<and> map shape (healthcare_tables bundle) =
     [Some ([''month_date'', ''year'', ''month'', ''encounter_count'', ''unique_patients'',
             ''total_revenue'', ''avg_cost_per_encounter'', ''total_payer_coverage'',
             ''total_patient_payment'', ''avg_coverage_percentage'', ''encounter_class'',
             ''cost_category'', ''encounter_day_name'', ''state''], 24),
      Some ([''patient_id'', ''full_name'', ''age'', ''age_group'', ''gender'',
             ''gender_full'', ''race'', ''ethnicity'', ''marital_status'', ''state'',
             ''county'', ''city'', ''zip'', ''income'', ''income_level'',
             ''healthcare_expenses'', ''healthcare_coverage'', ''coverage_tier'',
             ''is_alive'', ''total_encounters'', ''total_medical_costs'',
             ''avg_cost_per_encounter'', ''total_out_of_pocket''], 1000),
      Some ([''encounter_id'', ''encounter_date'', ''encounter_year'', ''encounter_month'',
             ''encounter_quarter'', ''encounter_day_of_week'', ''encounter_day_name'',
             ''encounter_class'', ''encounter_code'', ''encounter_description'',
             ''reason_code'', ''reason_description'', ''cost_category'',
             ''duration_minutes'', ''duration_hours'', ''base_encounter_cost'',
             ''total_claim_cost'', ''payer_coverage'', ''patient_out_of_pocket'',
             ''payer_coverage_percentage'', ''patient_id'', ''provider_id'', ''payer_id'',
             ''organization_id'', ''age'', ''age_group'', ''gender_full'', ''state'',
             ''income_level'', ''coverage_tier''], 5000),
      Some ([''claim_id'', ''patient_id'', ''provider_id'', ''service_date'',
             ''service_year'', ''service_month'', ''service_quarter'',
             ''current_illness_date'', ''primary_insurance_id'', ''secondary_insurance_id'',
             ''insurance_coverage_type'', ''primary_status'', ''secondary_status'',
             ''patient_status'', ''primary_outstanding'', ''secondary_outstanding'',
             ''patient_outstanding'', ''total_outstanding'', ''outstanding_risk_level'',
             ''primary_last_billed_date'', ''secondary_last_billed_date'',
             ''patient_last_billed_date'', ''primary_claim_type'', ''secondary_claim_type'',
             ''age'', ''age_group'', ''gender_full'', ''state'', ''income_level'',
             ''coverage_tier'', ''diagnosis1'', ''diagnosis2'', ''diagnosis3'',
             ''diagnosis4'', ''diagnosis5'', ''diagnosis6'', ''diagnosis7'', ''diagnosis8'',
             ''diagnosis_count''], 2000),
      Some ([''encounter_date'', ''encounter_year'', ''encounter_month'',
             ''encounter_quarter'', ''encounter_class'', ''cost_category'', ''patient_id'',
             ''provider_id'', ''payer_id'', ''base_encounter_cost'', ''total_claim_cost'',
             ''payer_coverage'', ''patient_out_of_pocket'', ''payer_coverage_percentage'',
             ''state'', ''county'', ''age_group'', ''gender_full'', ''income_level'',
             ''income'', ''healthcare_expenses'', ''healthcare_coverage'',
             ''total_claim_outstanding'', ''total_claims'', ''monthly_total_revenue'',
             ''monthly_payer_coverage'', ''monthly_patient_payment'',
             ''state_total_revenue'', ''state_payer_coverage'', ''state_patient_payment'',
             ''class_total_revenue'', ''payer_total_revenue'', ''avg_coverage_by_payer'',
             ''avg_coverage_by_income'', ''avg_coverage_by_age'', ''avg_cost_by_class'',
             ''avg_cost_by_provider'', ''patient_burden_percentage'',
             ''financial_burden_category''], 1000),
      Some ([''state'', ''county'', ''city'', ''patient_count'', ''avg_age'',
             ''avg_income'', ''avg_coverage_rate'', ''total_expenses'',
             ''avg_expenses_per_patient'', ''encounter_count'', ''total_medical_costs'',
             ''avg_cost_per_encounter'', ''total_insurance_paid'', ''total_patient_paid'',
             ''avg_coverage_percentage'', ''unique_encounter_patients'', ''claim_count'',
             ''total_outstanding'', ''avg_outstanding_per_claim'',
             ''unique_claim_patients'', ''encounters_per_patient'',
             ''medical_cost_per_patient'', ''outstanding_per_patient'',
             ''outstanding_percentage'', ''geographic_risk_level''], 125)]"
    by (intro exI conjI, rule healthcare_fallback [OF b], rule mock_healthcare_shapes)
qed

theorem mock_tables_shape_witness:
  "((None :: dataframe option) = None \<or> (None :: dataframe option) = None)
   \<and> map shape (fda_tables (fst (fda_dashboard_data_from None None None None None
          (\<lambda>i. i)))) =
     [Some ([''total_reports'', ''serious_reports'', ''fatal_reports'',
             ''countries_affected'', ''report_month''], 12),
      Some ([''medicinalproduct'', ''generic_name'', ''report_count'', ''recovered_count'',
             ''fatal_count'', ''avg_age'', ''male_count'', ''female_count''], 10),
      Some ([''occurcountry'', ''report_count'', ''serious_reports'', ''fatal_reports'',
             ''unique_serious_reports''], 10),
      Some ([''receivedate'', ''total_reports'', ''serious_reports'', ''fatal_reports'',
             ''hospitalization_reports''], 26),
      Some ([''medicinalproduct'', ''generic_name'', ''drugcharacterization'',
             ''report_count'', ''recovered_count'', ''fatal_count'', ''unique_reports''], 8)]
   \<and> \<not> list_all (\<lambda>df. df \<noteq> None)
          [Some pd_DataFrame, None, Some pd_DataFrame, Some pd_DataFrame, Some pd_DataFrame,
           Some pd_DataFrame]
   \<and> (\<exists>bundle shown g''.
         healthcare_dashboard_data_from (Some pd_DataFrame) None (Some pd_DataFrame)
             (Some pd_DataFrame) (Some pd_DataFrame) (Some pd_DataFrame)
             \<lparr>now_year = 2025, now_month = 6\<rparr> (\<lambda>i. i) = Inr (bundle, shown, g'')
         \<and> map shape (healthcare_tables bundle) =
     [Some ([''month_date'', ''year'', ''month'', ''encounter_count'', ''unique_patients'',
             ''total_revenue'', ''avg_cost_per_encounter'', ''total_payer_coverage'',
             ''total_patient_payment'', ''avg_coverage_percentage'', ''encounter_class'',
             ''cost_category'', ''encounter_day_name'', ''state''], 24),
      Some ([''patient_id'', ''full_name'', ''age'', ''age_group'', ''gender'',
             ''gender_full'', ''race'', ''ethnicity'', ''marital_status'', ''state'',
             ''county'', ''city'', ''zip'', ''income'', ''income_level'',
             ''healthcare_expenses'', ''healthcare_coverage'', ''coverage_tier'',
             ''is_alive'', ''total_encounters'', ''total_medical_costs'',
             ''avg_cost_per_encounter'', ''total_out_of_pocket''], 1000),
      Some ([''encounter_id'', ''encounter_date'', ''encounter_year'', ''encounter_month'',
             ''encounter_quarter'', ''encounter_day_of_week'', ''encounter_day_name'',
             ''encounter_class'', ''encounter_code'', ''encounter_description'',
             ''reason_code'', ''reason_description'', ''cost_category'',
             ''duration_minutes'', ''duration_hours'', ''base_encounter_cost'',
             ''total_claim_cost'', ''payer_coverage'', ''patient_out_of_pocket'',
             ''payer_coverage_percentage'', ''patient_id'', ''provider_id'', ''payer_id'',
             ''organization_id'', ''age'', ''age_group'', ''gender_full'', ''state'',
             ''income_level'', ''coverage_tier''], 5000),
      Some ([''claim_id'', ''patient_id'', ''provider_id'', ''service_date'',
             ''service_year'', ''service_month'', ''service_quarter'',
             ''current_illness_date'', ''primary_insurance_id'', ''secondary_insurance_id'',
             ''insurance_coverage_type'', ''primary_status'', ''secondary_status'',
             ''patient_status'', ''primary_outstanding'', ''secondary_outstanding'',
             ''patient_outstanding'', ''total_outstanding'', ''outstanding_risk_level'',
             ''primary_last_billed_date'', ''secondary_last_billed_date'',
             ''patient_last_billed_date'', ''primary_claim_type'', ''secondary_claim_type'',
             ''age'', ''age_group'', ''gender_full'', ''state'', ''income_level'',
             ''coverage_tier'', ''diagnosis1'', ''diagnosis2'', ''diagnosis3'',
             ''diagnosis4'', ''diagnosis5'', ''diagnosis6'', ''diagnosis7'', ''diagnosis8'',
             ''diagnosis_count''], 2000),
      Some ([''encounter_date'', ''encounter_year'', ''encounter_month'',
             ''encounter_quarter'', ''encounter_class'', ''cost_category'', ''patient_id'',
             ''provider_id'', ''payer_id'', ''base_encounter_cost'', ''total_claim_cost'',
             ''payer_coverage'', ''patient_out_of_pocket'', ''payer_coverage_percentage'',
             ''state'', ''county'', ''age_group'', ''gender_full'', ''income_level'',
             ''income'', ''healthcare_expenses'', ''healthcare_coverage'',
             ''total_claim_outstanding'', ''total_claims'', ''monthly_total_revenue'',
             ''monthly_payer_coverage'', ''monthly_patient_payment'',
             ''state_total_revenue'', ''state_payer_coverage'', ''state_patient_payment'',
             ''class_total_revenue'', ''payer_total_revenue'', ''avg_coverage_by_payer'',
             ''avg_coverage_by_income'', ''avg_coverage_by_age'', ''avg_cost_by_class'',
             ''avg_cost_by_provider'', ''patient_burden_percentage'',
             ''financial_burden_category''], 1000),
      Some ([''state'', ''county'', ''city'', ''patient_count'', ''avg_age'',
             ''avg_income'', ''avg_coverage_rate'', ''total_expenses'',
             ''avg_expenses_per_patient'', ''encounter_count'', ''total_medical_costs'',
             ''avg_cost_per_encounter'', ''total_insurance_paid'', ''total_patient_paid'',
             ''avg_coverage_percentage'', ''unique_encounter_patients'', ''claim_count'',
             ''total_outstanding'', ''avg_outstanding_per_claim'',
             ''unique_claim_patients'', ''encounters_per_patient'',
             ''medical_cost_per_patient'', ''outstanding_per_patient'',
             ''outstanding_percentage'', ''geographic_risk_level''], 125)])"
  using mock_tables_shape [of None None None None None "\<lambda>i. i"
      "Some pd_DataFrame" None "Some pd_DataFrame" "Some pd_DataFrame" "Some pd_DataFrame"
      "Some pd_DataFrame" "\<lparr>now_year = 2025, now_month = 6\<rparr>" "\<lambda>i. i"]
  by simp

section \<open>Column names of Pipeline B\<close>

lemma and_then_eq_Inr:
  "(and_then m f = Inr r) = (\<exists>x. m = Inr x \<and> f x = Inr r)"
  by (cases m) (simp_all add: and_then_def)

lemma not_upper_lower_char:
  "\<not> upper_char (lower_char c)"
  by (auto simp: lower_char_def upper_char_def)

lemma lower_name_str_lower:
  "lower_name (str_lower s)"
  by (simp add: lower_name_def str_lower_def list_all_iff not_upper_lower_char)

lemma set_lower_columns_Inr:
  "set_lower_columns t = Inr t' \<Longrightarrow> lower_named t'"
  using lower_name_str_lower
  by (auto simp: set_lower_columns_def lower_named_def list_all_iff
      split: option.splits if_splits)

lemma lower_named_mock_exec: "lower_named (Some (fst (mock_exec_df clk g)))"
  by (simp add: lower_named_def mock_exec_columns lower_name_def upper_char_def)

lemma lower_named_mock_patient: "lower_named (Some (fst (mock_patient_df g)))"
  by (simp add: lower_named_def mock_patient_columns lower_name_def upper_char_def)

lemma lower_named_mock_encounter: "lower_named (Some (fst (mock_encounter_df clk g)))"
  by (simp add: lower_named_def mock_encounter_columns lower_name_def upper_char_def)

lemma lower_named_mock_claims: "lower_named (Some (fst (mock_claims_df clk g)))"
  by (simp add: lower_named_def mock_claims_columns lower_name_def upper_char_def)

lemma lower_named_mock_financial: "lower_named (Some (fst (mock_financial_df clk g)))"
  by (simp add: lower_named_def mock_financial_columns lower_name_def upper_char_def)

lemma lower_named_mock_geo: "lower_named (Some (fst (mock_geo_df g)))"
  by (simp add: lower_named_def mock_geo_columns lower_name_def upper_char_def)

lemma lower_named_mock_healthcare:
  "list_all lower_named (healthcare_tables (fst (mock_healthcare_data clk g)))"
  by (simp only: mock_healthcare_data_def split_beta fst_conv healthcare_tables.simps
      list.pred_inject lower_named_mock_exec lower_named_mock_patient lower_named_mock_encounter
      lower_named_mock_claims lower_named_mock_financial lower_named_mock_geo simp_thms)

lemma lower_named_healthcare_from:
  assumes "healthcare_dashboard_data_from exec_df patient_df encounter_df claims_df
      financial_df geo_df clk g = Inr (bundle, shown, g')"
  shows "list_all lower_named (healthcare_tables bundle)"
proof (cases "list_all (\<lambda>df. df \<noteq> None)
    [exec_df, patient_df, encounter_df, claims_df, financial_df, geo_df]")
  case True
  with assms obtain a b c d e f where
    "set_lower_columns exec_df = Inr a" "set_lower_columns patient_df = Inr b"
    "set_lower_columns encounter_df = Inr c" "set_lower_columns claims_df = Inr d"
    "set_lower_columns financial_df = Inr e" "set_lower_columns geo_df = Inr f"
    "bundle = (a, b, c, d, e, f)"
    by (auto simp: healthcare_dashboard_data_from_def and_then_eq_Inr)
  then show ?thesis
    by (simp add: set_lower_columns_Inr)
next
  case False
  from assms have "bundle = fst (mock_healthcare_data clk g)"
    by (simp add: healthcare_fallback [OF False])
  then show ?thesis
    by (simp only: lower_named_mock_healthcare)
qed

lemma healthcare_real_path:
  assumes "columns exec_df \<noteq> []" and "columns patient_df \<noteq> []"
    and "columns encounter_df \<noteq> []" and "columns claims_df \<noteq> []"
    and "columns financial_df \<noteq> []" and "columns geo_df \<noteq> []"
  shows "healthcare_dashboard_data_from (Some exec_df) (Some patient_df) (Some encounter_df)
       (Some claims_df) (Some financial_df) (Some geo_df) clk g =
     Inr ((Some (exec_df\<lparr>columns := map str_lower (columns exec_df)\<rparr>),
           Some (patient_df\<lparr>columns := map str_lower (columns patient_df)\<rparr>),
           Some (encounter_df\<lparr>columns := map str_lower (columns encounter_df)\<rparr>),
           Some (claims_df\<lparr>columns := map str_lower (columns claims_df)\<rparr>),
           Some (financial_df\<lparr>columns := map str_lower (columns financial_df)\<rparr>),
           Some (geo_df\<lparr>columns := map str_lower (columns geo_df)\<rparr>)), [], g)"
  using assms
  by (simp add: healthcare_dashboard_data_from_def set_lower_columns_def and_then_Inr)

lemma healthcare_loaders_serving:
  "load_executive_dashboard_data (serving t) =
     Inr (Some (if df_empty t then pd_DataFrame else t), [])"
  "load_patient_demographics_data (serving t) =
     Inr (Some (if df_empty t then pd_DataFrame else t), [])"
  "load_encounter_analysis_data (serving t) =
     Inr (Some (if df_empty t then pd_DataFrame else t), [])"
  "load_claims_management_data (serving t) =
     Inr (Some (if df_empty t then pd_DataFrame else t), [])"
  "load_financial_insights_data (serving t) =
     Inr (Some (if df_empty t then pd_DataFrame else t), [])"
  "load_geographic_analysis_data (serving t) =
     Inr (Some (if df_empty t then pd_DataFrame else t), [])"
  by (simp_all add: load_executive_dashboard_data_def load_patient_demographics_data_def
      load_encounter_analysis_data_def load_claims_management_data_def
      load_financial_insights_data_def load_geographic_analysis_data_def
      execute_snowflake_query_def snowflake_try_body_def serving_def)

lemma healthcare_loaders_down:
  "load_executive_dashboard_data warehouse_down =
     Inr (None, [StError ''Query execution failed on Snowflake: connection refused''])"
  "load_patient_demographics_data warehouse_down =
     Inr (None, [StError ''Query execution failed on Snowflake: connection refused''])"
  "load_encounter_analysis_data warehouse_down =
     Inr (None, [StError ''Query execution failed on Snowflake: connection refused''])"
  "load_claims_management_data warehouse_down =
     Inr (None, [StError ''Query execution failed on Snowflake: connection refused''])"
  "load_financial_insights_data warehouse_down =
     Inr (None, [StError ''Query execution failed on Snowflake: connection refused''])"
  "load_geographic_analysis_data warehouse_down =
     Inr (None, [StError ''Query execution failed on Snowflake: connection refused''])"
  by (simp_all add: load_executive_dashboard_data_def load_patient_demographics_data_def
      load_encounter_analysis_data_def load_claims_management_data_def
      load_financial_insights_data_def load_geographic_analysis_data_def
      execute_snowflake_query_def snowflake_try_body_def warehouse_down_def)

text \<open>
  Claim C9. Whenever \<open>load_healthcare_dashboard_data\<close> returns a bundle, every member of it
  is a table none of whose column names holds an upper-case letter, on both paths: the real
  path lower-cases the columns of each of the six tables, and the mock tables are built with
  lower-case keys. (The call returns no bundle when a loader lets an exception through or
  the real path meets a table without columns.)
\<close>

theorem healthcare_columns_lower_case:
  "load_healthcare_dashboard_data st_conn clk g = Inr (bundle, shown, g') \<longrightarrow>
     list_all lower_named (healthcare_tables bundle)"
proof
  assume "load_healthcare_dashboard_data st_conn clk g = Inr (bundle, shown, g')"
  then obtain exec_df patient_df encounter_df claims_df financial_df geo_df ui7 where
    "healthcare_dashboard_data_from exec_df patient_df encounter_df claims_df financial_df
       geo_df clk g = Inr (bundle, ui7, g')"
    by (auto simp: load_healthcare_dashboard_data_def and_then_eq_Inr)
  then show "list_all lower_named (healthcare_tables bundle)"
    by (rule lower_named_healthcare_from)
qed

theorem healthcare_columns_lower_case_witness:
  "load_healthcare_dashboard_data (serving sample_table) \<lparr>now_year = 2025, now_month = 6\<rparr>
       (\<lambda>i. i) =
     Inr ((Some \<lparr>columns = [''patient_id'', ''age''], rows = [[StrC ''P00001'', IntC 42]]\<rparr>,
           Some \<lparr>columns = [''patient_id'', ''age''], rows = [[StrC ''P00001'', IntC 42]]\<rparr>,
           Some \<lparr>columns = [''patient_id'', ''age''], rows = [[StrC ''P00001'', IntC 42]]\<rparr>,
           Some \<lparr>columns = [''patient_id'', ''age''], rows = [[StrC ''P00001'', IntC 42]]\<rparr>,
           Some \<lparr>columns = [''patient_id'', ''age''], rows = [[StrC ''P00001'', IntC 42]]\<rparr>,
           Some \<lparr>columns = [''patient_id'', ''age''], rows = [[StrC ''P00001'', IntC 42]]\<rparr>),
          [], \<lambda>i. i)
   \<and> lower_named
        (Some \<lparr>columns = [''patient_id'', ''age''], rows = [[StrC ''P00001'', IntC 42]]\<rparr>)
   \<and> \<not> lower_named (Some sample_table)
   \<and> (\<exists>bundle shown g'.
        load_healthcare_dashboard_data warehouse_down \<lparr>now_year = 2025, now_month = 6\<rparr>
            (\<lambda>i. i) = Inr (bundle, shown, g')
        \<and> list_all lower_named (healthcare_tables bundle))"
proof -
  let ?clk = "\<lparr>now_year = 2025, now_month = 6\<rparr>"
  let ?low = "\<lparr>columns = [''patient_id'', ''age''], rows = [[StrC ''P00001'', IntC 42]]\<rparr>"
  have l: "map str_lower [''PATIENT_ID'', ''Age''] = [''patient_id'', ''age'']"
    by code_simp
  have c: "sample_table\<lparr>columns := map str_lower (columns sample_table)\<rparr> = ?low"
    using l by (simp add: sample_table_def)
  have ne: "\<not> df_empty sample_table" "columns sample_table \<noteq> []"
    by (simp_all add: df_empty_def sample_table_def)
  have r: "load_healthcare_dashboard_data (serving sample_table) ?clk (\<lambda>i. i) =
      Inr ((Some ?low, Some ?low, Some ?low, Some ?low, Some ?low, Some ?low), [], \<lambda>i. i)"
    using healthcare_real_path [OF ne(2) ne(2) ne(2) ne(2) ne(2) ne(2), of ?clk "\<lambda>i. i"]
    by (simp add: load_healthcare_dashboard_data_def healthcare_loaders_serving ne(1)
        and_then_Inr c)
  have n: "\<not> lower_named (Some sample_table)"
    by code_simp
  from healthcare_columns_lower_case [of "serving sample_table" ?clk "\<lambda>i. i"] r
  have a: "list_all lower_named
      (healthcare_tables (Some ?low, Some ?low, Some ?low, Some ?low, Some ?low, Some ?low))"
    by blast
  then have a': "lower_named (Some ?low)"
    by simp
  have "\<not> list_all (\<lambda>df. df \<noteq> None)
      [None, None, None, None, None, None :: dataframe option]"
    by simp
  from healthcare_fallback [OF this, of ?clk "\<lambda>i. i"]
  have d: "load_healthcare_dashboard_data warehouse_down ?clk (\<lambda>i. i) =
      Inr (fst (mock_healthcare_data ?clk (\<lambda>i. i)),
        [StError ''Query execution failed on Snowflake: connection refused''] @
        [StError ''Query execution failed on Snowflake: connection refused''] @
        [StError ''Query execution failed on Snowflake: connection refused''] @
        [StError ''Query execution failed on Snowflake: connection refused''] @
        [StError ''Query execution failed on Snowflake: connection refused''] @
        [StError ''Query execution failed on Snowflake: connection refused''] @
        [StWarning ''Using mock data - database connection not available''],
        snd (mock_healthcare_data ?clk (\<lambda>i. i)))"
    by (simp only: load_healthcare_dashboard_data_def healthcare_loaders_down and_then_Inr
        prod.case)
  from healthcare_columns_lower_case [of warehouse_down ?clk "\<lambda>i. i"] d
  have b: "list_all lower_named (healthcare_tables (fst (mock_healthcare_data ?clk (\<lambda>i. i))))"
    by blast
  from d b have e: "\<exists>bundle shown g'.
        load_healthcare_dashboard_data warehouse_down ?clk (\<lambda>i. i) = Inr (bundle, shown, g')
        \<and> list_all lower_named (healthcare_tables bundle)"
    by blast
  from r a' n e show ?thesis
    by (intro conjI)
qed

section \<open>The real path\<close>

lemma fda_real_path:
  "fda_dashboard_data_from (Some volume_df) (Some top_drugs_df) global_dist_df trends_df
       suspect_drugs_df g =
     ((Some volume_df, Some top_drugs_df, global_dist_df, trends_df, suspect_drugs_df), [], g)"
  by (simp add: fda_dashboard_data_from_def)

lemma healthcare_real_path_without_columns:
  "columns exec_df = [] \<Longrightarrow>
     healthcare_dashboard_data_from (Some exec_df) (Some patient_df) (Some encounter_df)
       (Some claims_df) (Some financial_df) (Some geo_df) clk g = Inl AttributeError"
  by (simp add: healthcare_dashboard_data_from_def set_lower_columns_def and_then_Inl)

text \<open>
  Claim C3. The claim asks that, when every loader of a bundle returns a table, the bundle
  loader returns the loaders' tables, those of Pipeline B with their column names
  lower-cased. Pipeline A does so (lemma \<open>fda_real_path\<close>), and so does Pipeline B when every
  table has columns (lemma \<open>healthcare_real_path\<close>). But a view without rows is a success of
  its loader, which returns \<open>pd.DataFrame()\<close> for it, and on that table the lower-casing of
  Pipeline B raises: with six loaders that all succeed, \<open>load_healthcare_dashboard_data\<close>
  returns no bundle.
\<close>

theorem zero_row_views_raise_in_healthcare_loader:
  "load_executive_dashboard_data (serving zero_row_view) = Inr (Some pd_DataFrame, [])
   \<and> load_patient_demographics_data (serving zero_row_view) = Inr (Some pd_DataFrame, [])
   \<and> load_encounter_analysis_data (serving zero_row_view) = Inr (Some pd_DataFrame, [])
   \<and> load_claims_management_data (serving zero_row_view) = Inr (Some pd_DataFrame, [])
   \<and> load_financial_insights_data (serving zero_row_view) = Inr (Some pd_DataFrame, [])
   \<and> load_geographic_analysis_data (serving zero_row_view) = Inr (Some pd_DataFrame, [])
   \<and> load_healthcare_dashboard_data (serving zero_row_view) clk g = Inl AttributeError"
proof -
  have e: "df_empty zero_row_view"
    by (simp add: df_empty_def zero_row_view_def)
  have c: "columns pd_DataFrame = []"
    by (simp add: pd_DataFrame_def)
  have "load_healthcare_dashboard_data (serving zero_row_view) clk g = Inl AttributeError"
    by (simp add: load_healthcare_dashboard_data_def healthcare_loaders_serving e and_then_Inr
        and_then_Inl healthcare_real_path_without_columns [OF c])
  then show ?thesis
    by (simp add: healthcare_loaders_serving e)
qed

section \<open>Partial failure in Pipeline A\<close>

text \<open>
  Claim C1. The claim asks that a bundle loader falls back to a fully synthetic bundle as
  soon as one loader returns \<open>None\<close>. \<open>load_healthcare_dashboard_data\<close> tests all six results
  (lemma \<open>healthcare_fallback\<close>). \<open>load_fda_dashboard_data\<close> tests the first two only (lemma
  \<open>fda_real_path\<close>): on a Warehouse A where only the safety-trends query fails, it returns the
  four real tables together with \<open>None\<close> in the place of the trends table, shows the executor's
  error and no fallback warning, and draws nothing.
\<close>

theorem fda_partial_failure_returns_mixed_bundle:
  "load_fda_dashboard_data trends_query_fails g =
     Inr ((Some sample_table, Some sample_table, Some sample_table, None, Some sample_table),
          [StError ''Query execution failed on Redshift: timeout''], g)"
proof -
  have v: "load_fda_volume_analysis trends_query_fails = Inr (Some sample_table, [])"
    by (simp add: load_fda_volume_analysis_def execute_redshift_query_def redshift_try_body_def
        trends_query_fails_def df_empty_def sample_table_def fda_volume_analysis_query_def
        fda_safety_trends_query_def)
  have t: "load_top_drugs_analysis trends_query_fails = Inr (Some sample_table, [])"
    by (simp add: load_top_drugs_analysis_def execute_redshift_query_def redshift_try_body_def
        trends_query_fails_def df_empty_def sample_table_def top_drugs_analysis_query_def
        fda_safety_trends_query_def)
  have d: "load_global_adverse_distribution trends_query_fails = Inr (Some sample_table, [])"
    by (simp add: load_global_adverse_distribution_def execute_redshift_query_def
        redshift_try_body_def trends_query_fails_def df_empty_def sample_table_def
        global_adverse_distribution_query_def fda_safety_trends_query_def)
  have r: "load_fda_safety_trends trends_query_fails =
      Inr (None, [StError ''Query execution failed on Redshift: timeout''])"
    by (simp add: load_fda_safety_trends_def execute_redshift_query_def redshift_try_body_def
        trends_query_fails_def)
  have s: "load_top_suspect_drugs trends_query_fails = Inr (Some sample_table, [])"
    by (simp add: load_top_suspect_drugs_def execute_redshift_query_def redshift_try_body_def
        trends_query_fails_def df_empty_def sample_table_def top_suspect_drugs_query_def
        fda_safety_trends_query_def)
  show ?thesis
    by (simp add: load_fda_dashboard_data_def v t d r s and_then_Inr fda_real_path)
qed

section \<open>The latest-week pie chart\<close>

lemma zip_label_nonempty:
  "map_of (zip cs r) k = Some v \<Longrightarrow> cs \<noteq> []"
  by (cases cs) simp_all

lemma pie_section_without_rows:
  "rows trends_df = [] \<Longrightarrow>
     report_type_distribution trends_df =
       Inr [StWarning ''No trend data available for visualization'']"
  by (simp add: report_type_distribution_def df_empty_def)

lemma pie_section_of_last_row:
  assumes "rows trends_df \<noteq> []"
    and "map_of (zip (columns trends_df) (last (rows trends_df))) ''total_reports'' = Some a"
    and "map_of (zip (columns trends_df) (last (rows trends_df))) ''serious_reports'' = Some b"
    and "map_of (zip (columns trends_df) (last (rows trends_df))) ''fatal_reports'' = Some c"
    and "map_of (zip (columns trends_df) (last (rows trends_df))) ''hospitalization_reports'' =
      Some d"
  shows "report_type_distribution trends_df =
      Inr [PieChart ''Latest Week Report Distribution''
             [''Total Reports'', ''Serious Reports'', ''Fatal Reports'',
              ''Hospitalization Reports''] [a, b, c, d] (3 / 10)]"
proof -
  have ne: "\<not> df_empty trends_df"
    using assms(1) zip_label_nonempty [OF assms(2)] by (simp add: df_empty_def)
  have l: "iloc_last trends_df = Inr (zip (columns trends_df) (last (rows trends_df)))"
    using assms(1) by (simp add: iloc_last_def)
  show ?thesis
    using assms(2-5) ne l by (simp add: report_type_distribution_def series_get_def)
qed

text \<open>
  Claim C7. For a trends table without rows the section shows the warning and raises
  nothing, although reading the last row of such a table would raise \<open>IndexError\<close>. For a
  trends table with rows, the pie chart is built from the four report counts of the last
  row, read under the labels \<open>total_reports\<close>, \<open>serious_reports\<close>, \<open>fatal_reports\<close> and
  \<open>hospitalization_reports\<close>, in that order.
\<close>

theorem report_type_distribution_guard:
  "(rows trends_df = [] \<longrightarrow>
      iloc_last trends_df = Inl IndexError
      \<and> report_type_distribution trends_df =
          Inr [StWarning ''No trend data available for visualization''])
   \<and> (rows trends_df \<noteq> []
      \<and> map_of (zip (columns trends_df) (last (rows trends_df))) ''total_reports'' =
          Some total_reports
      \<and> map_of (zip (columns trends_df) (last (rows trends_df))) ''serious_reports'' =
          Some serious_reports
      \<and> map_of (zip (columns trends_df) (last (rows trends_df))) ''fatal_reports'' =
          Some fatal_reports
      \<and> map_of (zip (columns trends_df) (last (rows trends_df))) ''hospitalization_reports'' =
          Some hospitalization_reports \<longrightarrow>
      report_type_distribution trends_df =
        Inr [PieChart ''Latest Week Report Distribution''
               [''Total Reports'', ''Serious Reports'', ''Fatal Reports'',
                ''Hospitalization Reports'']
               [total_reports, serious_reports, fatal_reports, hospitalization_reports]
               (3 / 10)])"
proof (intro conjI impI)
  assume "rows trends_df = []"
  then show "iloc_last trends_df = Inl IndexError"
    by (simp add: iloc_last_def)
next
  assume "rows trends_df = []"
  then show "report_type_distribution trends_df =
      Inr [StWarning ''No trend data available for visualization'']"
    by (rule pie_section_without_rows)
next
  assume "rows trends_df \<noteq> []
      \<and> map_of (zip (columns trends_df) (last (rows trends_df))) ''total_reports'' =
          Some total_reports
      \<and> map_of (zip (columns trends_df) (last (rows trends_df))) ''serious_reports'' =
          Some serious_reports
      \<and> map_of (zip (columns trends_df) (last (rows trends_df))) ''fatal_reports'' =
          Some fatal_reports
      \<and> map_of (zip (columns trends_df) (last (rows trends_df))) ''hospitalization_reports'' =
          Some hospitalization_reports"
  then show "report_type_distribution trends_df =
        Inr [PieChart ''Latest Week Report Distribution''
               [''Total Reports'', ''Serious Reports'', ''Fatal Reports'',
                ''Hospitalization Reports'']
               [total_reports, serious_reports, fatal_reports, hospitalization_reports]
               (3 / 10)]"
    by (intro pie_section_of_last_row) simp_all
qed

theorem report_type_distribution_guard_witness:
  "rows \<lparr>columns = [''receivedate'', ''total_reports'', ''serious_reports'', ''fatal_reports'',
             ''hospitalization_reports''], rows = []\<rparr> = []
   \<and> report_type_distribution
        \<lparr>columns = [''receivedate'', ''total_reports'', ''serious_reports'', ''fatal_reports'',
             ''hospitalization_reports''], rows = []\<rparr> =
      Inr [StWarning ''No trend data available for visualization'']
   \<and> report_type_distribution
        \<lparr>columns = [''receivedate'', ''total_reports'', ''serious_reports'', ''fatal_reports'',
             ''hospitalization_reports''],
         rows = [[TimeC (PeriodEnd ''W'' 1), IntC 250, IntC 30, IntC 1, IntC 12],
                 [TimeC (PeriodEnd ''W'' 0), IntC 310, IntC 41, IntC 2, IntC 17]]\<rparr> =
      Inr [PieChart ''Latest Week Report Distribution''
             [''Total Reports'', ''Serious Reports'', ''Fatal Reports'',
              ''Hospitalization Reports'']
             [IntC 310, IntC 41, IntC 2, IntC 17] (3 / 10)]"
  using report_type_distribution_guard [of
      "\<lparr>columns = [''receivedate'', ''total_reports'', ''serious_reports'', ''fatal_reports'',
             ''hospitalization_reports''], rows = []\<rparr>"]
    report_type_distribution_guard [of
      "\<lparr>columns = [''receivedate'', ''total_reports'', ''serious_reports'', ''fatal_reports'',
             ''hospitalization_reports''],
         rows = [[TimeC (PeriodEnd ''W'' 1), IntC 250, IntC 30, IntC 1, IntC 12],
                 [TimeC (PeriodEnd ''W'' 0), IntC 310, IntC 41, IntC 2, IntC 17]]\<rparr>"
      "IntC 310" "IntC 41" "IntC 2" "IntC 17"]
  by simp

subsection \<open>On mock data\<close>

lemma last_rows_DataFrame:
  "ds \<noteq> [] \<Longrightarrow>
     last (rows (DataFrame ds)) = map (record_cell (last ds)) (record_columns ds)"
  by (simp add: DataFrame_def last_map)

lemma label_of_record_frame:
  "ds \<noteq> [] \<Longrightarrow> k \<in> set (columns (DataFrame ds)) \<Longrightarrow>
     map_of (zip (columns (DataFrame ds)) (last (rows (DataFrame ds)))) k =
       Some (record_cell (last ds) k)"
  by (simp add: last_rows_DataFrame) (simp add: DataFrame_def map_of_zip_map)

lemma mock_trends_pie:
  "\<exists>counts. report_type_distribution (fst (mock_trends_df g)) =
     Inr [PieChart ''Latest Week Report Distribution''
            [''Total Reports'', ''Serious Reports'', ''Fatal Reports'',
             ''Hospitalization Reports''] counts (3 / 10)]"
proof -
  let ?ds = "fst (append_records trends_record (date_range 26 ''W'') g)"
  have df: "fst (mock_trends_df g) = DataFrame ?ds"
    by (simp only: mock_trends_df_def split_beta fst_conv)
  have "length ?ds = 26"
    by (simp del: upt_rec_numeral add: length_append_records date_range_def)
  then have ne: "?ds \<noteq> []"
    by auto
  have rn: "rows (DataFrame ?ds) \<noteq> []"
    using ne by (simp add: DataFrame_def)
  have c: "columns (DataFrame ?ds) =
      [''receivedate'', ''total_reports'', ''serious_reports'', ''fatal_reports'',
       ''hospitalization_reports'']"
    using mock_trends_columns [of g] by (simp only: df)
  have m: "map_of (zip (columns (DataFrame ?ds)) (last (rows (DataFrame ?ds)))) k =
      Some (record_cell (last ?ds) k)" if "k \<in> set (columns (DataFrame ?ds))" for k
    using label_of_record_frame [OF ne that] .
  have "report_type_distribution (DataFrame ?ds) =
      Inr [PieChart ''Latest Week Report Distribution''
            [''Total Reports'', ''Serious Reports'', ''Fatal Reports'',
             ''Hospitalization Reports'']
            [record_cell (last ?ds) ''total_reports'', record_cell (last ?ds) ''serious_reports'',
             record_cell (last ?ds) ''fatal_reports'',
             record_cell (last ?ds) ''hospitalization_reports''] (3 / 10)]"
    by (intro pie_section_of_last_row rn m) (simp_all add: c)
  then show ?thesis
    by (simp only: df) blast
qed

lemma mock_trends_not_empty:
  "len (fst (mock_trends_df g)) = 26 \<and> \<not> df_empty (fst (mock_trends_df g))"
  using mock_trends_len [of g] mock_trends_columns [of g]
  by (auto simp: df_empty_def len_def)

text \<open>
  Claim C10. On the fallback path of Pipeline A the trends table has exactly 26 rows and is
  not empty, so the section shows the pie chart and never the warning.
\<close>

theorem synthetic_trends_pie_always_renders:
  "volume_df = None \<or> top_drugs_df = None \<longrightarrow>
     (\<exists>trends_df counts.
        trends_of (fst (fda_dashboard_data_from volume_df top_drugs_df global_dist_df
            loaded_trends_df suspect_drugs_df g)) = Some trends_df
        \<and> len trends_df = 26
        \<and> \<not> df_empty trends_df
        \<and> report_type_distribution trends_df =
            Inr [PieChart ''Latest Week Report Distribution''
                   [''Total Reports'', ''Serious Reports'', ''Fatal Reports'',
                    ''Hospitalization Reports''] counts (3 / 10)]
        \<and> report_type_distribution trends_df \<noteq>
            Inr [StWarning ''No trend data available for visualization''])"
proof
  assume a: "volume_df = None \<or> top_drugs_df = None"
  let ?g = "snd (mock_global_dist_df (snd (mock_top_drugs_df (snd (mock_volume_df g)))))"
  have t: "trends_of (fst (fda_dashboard_data_from volume_df top_drugs_df global_dist_df
      loaded_trends_df suspect_drugs_df g)) = Some (fst (mock_trends_df ?g))"
    by (simp only: fda_fallback [OF a] fst_conv mock_fda_data_def split_beta trends_of.simps)
  obtain counts where p: "report_type_distribution (fst (mock_trends_df ?g)) =
      Inr [PieChart ''Latest Week Report Distribution''
            [''Total Reports'', ''Serious Reports'', ''Fatal Reports'',
             ''Hospitalization Reports''] counts (3 / 10)]"
    using mock_trends_pie [of ?g] by blast
  have w: "report_type_distribution (fst (mock_trends_df ?g)) \<noteq>
      Inr [StWarning ''No trend data available for visualization'']"
    by (simp add: p)
  from t p w mock_trends_not_empty [of ?g] show "\<exists>trends_df counts.
        trends_of (fst (fda_dashboard_data_from volume_df top_drugs_df global_dist_df
            loaded_trends_df suspect_drugs_df g)) = Some trends_df
        \<and> len trends_df = 26
        \<and> \<not> df_empty trends_df
        \<and> report_type_distribution trends_df =
            Inr [PieChart ''Latest Week Report Distribution''
                   [''Total Reports'', ''Serious Reports'', ''Fatal Reports'',
                    ''Hospitalization Reports''] counts (3 / 10)]
        \<and> report_type_distribution trends_df \<noteq>
            Inr [StWarning ''No trend data available for visualization'']"
    by blast
qed

theorem synthetic_trends_pie_always_renders_witness:
  "((None :: dataframe option) = None \<or> Some sample_table = None)
   \<and> (\<exists>trends_df counts.
        trends_of (fst (fda_dashboard_data_from None (Some sample_table) (Some sample_table)
            (Some sample_table) None (\<lambda>i. i))) = Some trends_df
        \<and> len trends_df = 26
        \<and> \<not> df_empty trends_df
        \<and> report_type_distribution trends_df =
            Inr [PieChart ''Latest Week Report Distribution''
                   [''Total Reports'', ''Serious Reports'', ''Fatal Reports'',
                    ''Hospitalization Reports''] counts (3 / 10)]
        \<and> report_type_distribution trends_df \<noteq>
            Inr [StWarning ''No trend data available for visualization''])"
  using synthetic_trends_pie_always_renders [of None "Some sample_table" "Some sample_table"
      "Some sample_table" None "\<lambda>i. i"]
  by simp

section \<open>Country codes on the map and in the heatmap table\<close>

lemma index_of_Some:
  "index_of k cs = Some i \<Longrightarrow> i < length cs \<and> cs ! i = k"
  by (induction cs arbitrary: i) (auto split: if_splits)

lemma index_of_None:
  "(index_of k cs = None) = (k \<notin> set cs)"
  by (induction cs) auto

lemma index_of_append:
  "index_of k cs = Some i \<Longrightarrow> index_of k (cs @ ys) = Some i"
  by (induction cs arbitrary: i) (auto split: if_splits)

lemma index_of_fresh:
  "k \<notin> set cs \<Longrightarrow> index_of k (cs @ [k]) = Some (length cs)"
  by (induction cs) auto

lemma zip_map_same:
  "zip xs (map h xs) = map (\<lambda>x. (x, h x)) xs"
  by (induction xs) auto

lemma in_remove_at:
  assumes "k \<in> set cs" and "i < length cs" and "k \<noteq> cs ! i"
  shows "k \<in> set (remove_at i cs)"
proof -
  have "set (take i cs @ cs ! i # drop (Suc i) cs) = set cs"
    by (subst id_take_nth_drop [OF assms(2), symmetric]) (rule refl)
  then have "set cs = set (take i cs) \<union> {cs ! i} \<union> set (drop (Suc i) cs)"
    by auto
  with assms(1,3) show ?thesis
    by (auto simp: remove_at_def)
qed

lemma column_positions_present:
  "set names \<subseteq> set cs \<Longrightarrow> \<exists>ps. column_positions cs names = Inr ps"
proof (induction names)
  case Nil
  then show ?case by simp
next
  case (Cons n ns)
  then obtain i where "index_of n cs = Some i"
    using index_of_None [of n cs] by auto
  moreover obtain ps where "column_positions cs ns = Inr ps"
    using Cons by auto
  ultimately show ?case by simp
qed

lemma heatmap_labels:
  assumes c: "get_column df ''occurcountry'' = Inr codes"
    and r: "{''report_count'', ''serious_reports'', ''fatal_reports''} \<subseteq> set (columns df)"
  shows "\<exists>shown. heatmap_table df = Inr [Dataframe (take 15 codes) shown]"
proof -
  obtain i where i: "index_of ''occurcountry'' (columns df) = Some i"
    and codes: "codes = map (\<lambda>r. cell_at r i) (rows df)"
    using c by (auto simp: get_column_def split: option.splits)
  have b: "i < length (columns df)" and n: "columns df ! i = ''occurcountry''"
    using index_of_Some [OF i] by auto
  have "set [''report_count'', ''serious_reports'', ''fatal_reports'']
      \<subseteq> set (remove_at i (columns df))"
    using r b n by (auto intro!: in_remove_at)
  then obtain ps where ps: "column_positions (remove_at i (columns df))
      [''report_count'', ''serious_reports'', ''fatal_reports''] = Inr ps"
    using column_positions_present by blast
  let ?rest = "\<lparr>columns = remove_at i (columns df),
      rows = map (remove_at i) (take 15 (rows df))\<rparr>"
  have si: "set_index (head 15 df) ''occurcountry'' = Inr (take 15 codes, ?rest)"
    by (simp add: set_index_def head_def i codes take_map)
  have sel: "select_columns ?rest [''report_count'', ''serious_reports'', ''fatal_reports''] =
      Inr \<lparr>columns = [''report_count'', ''serious_reports'', ''fatal_reports''],
           rows = map (\<lambda>r. map (cell_at r) ps) (rows ?rest)\<rparr>"
    by (simp add: select_columns_def ps del: column_positions.simps)
  show ?thesis
    by (simp only: heatmap_table_def si sel sum.case prod.case) blast
qed

lemma cell_at_snoc:
  "cell_at (r @ [v]) (length r) = v"
  by (simp add: cell_at_def)

lemma cell_at_snoc_old:
  "i < length r \<Longrightarrow> cell_at (r @ [v]) i = cell_at r i"
  by (simp add: cell_at_def nth_append)

lemma cell_at_update_same:
  "j < length r \<Longrightarrow> cell_at (r[j := v]) j = v"
  by (simp add: cell_at_def)

lemma cell_at_update_other:
  "i \<noteq> j \<Longrightarrow> cell_at (r[j := v]) i = cell_at r i"
  by (simp add: cell_at_def)

lemma kept_column:
  "\<forall>r \<in> set xs. P (g r) = Q (h r) \<Longrightarrow> \<forall>r \<in> set xs. k (g r) = f (h r) \<Longrightarrow>
     map k (filter P (map g xs)) = map f (filter Q (map h xs))"
  by (induction xs) auto

lemma choropleth_from_parts:
  assumes m: "map_df df = Inr \<lparr>columns = cs, rows = map g rs\<rparr>"
    and iso: "index_of ''iso_alpha'' cs = Some n"
    and occ: "index_of ''occurcountry'' cs = Some i"
    and new: "\<forall>r \<in> set rs. cell_at (g r) n = map_code (cell_at r i)"
    and old: "\<forall>r \<in> set rs. cell_at (g r) i = cell_at r i"
  shows "\<exists>m. choropleth_data df = Inr m
      \<and> get_column m ''occurcountry'' =
          Inr (filter (\<lambda>c. map_code c \<noteq> NaN) (map (\<lambda>r. cell_at r i) rs))
      \<and> get_column m ''iso_alpha'' =
          Inr (map map_code (filter (\<lambda>c. map_code c \<noteq> NaN) (map (\<lambda>r. cell_at r i) rs)))"
proof -
  let ?m = "\<lparr>columns = cs, rows = filter (\<lambda>r. cell_at r n \<noteq> NaN) (map g rs)\<rparr>"
  have c: "choropleth_data df = Inr ?m"
    by (simp add: choropleth_data_def m dropna_def iso)
  have p: "\<forall>r \<in> set rs. (cell_at (g r) n \<noteq> NaN) = (map_code (cell_at r i) \<noteq> NaN)"
    using new by simp
  have o: "map (\<lambda>r. cell_at r i) (filter (\<lambda>r. cell_at r n \<noteq> NaN) (map g rs)) =
      map (\<lambda>c. c) (filter (\<lambda>c. map_code c \<noteq> NaN) (map (\<lambda>r. cell_at r i) rs))"
    using p old by (rule kept_column)
  have a: "map (\<lambda>r. cell_at r n) (filter (\<lambda>r. cell_at r n \<noteq> NaN) (map g rs)) =
      map map_code (filter (\<lambda>c. map_code c \<noteq> NaN) (map (\<lambda>r. cell_at r i) rs))"
    using p new by (rule kept_column)
  have "get_column ?m ''occurcountry'' =
      Inr (filter (\<lambda>c. map_code c \<noteq> NaN) (map (\<lambda>r. cell_at r i) rs))"
    using o by (simp add: get_column_def occ)
  moreover have "get_column ?m ''iso_alpha'' =
      Inr (map map_code (filter (\<lambda>c. map_code c \<noteq> NaN) (map (\<lambda>r. cell_at r i) rs)))"
    using a by (simp add: get_column_def iso)
  ultimately show ?thesis
    using c by blast
qed

lemma choropleth_columns:
  assumes wf: "list_all (\<lambda>r. length r = length (columns df)) (rows df)"
    and c: "get_column df ''occurcountry'' = Inr codes"
  shows "\<exists>m. choropleth_data df = Inr m
      \<and> get_column m ''occurcountry'' = Inr (filter (\<lambda>c. map_code c \<noteq> NaN) codes)
      \<and> get_column m ''iso_alpha'' =
          Inr (map map_code (filter (\<lambda>c. map_code c \<noteq> NaN) codes))"
proof -
  obtain i where i: "index_of ''occurcountry'' (columns df) = Some i"
    and codes: "codes = map (\<lambda>r. cell_at r i) (rows df)"
    using c by (auto simp: get_column_def split: option.splits)
  have b: "i < length (columns df)" and n: "columns df ! i = ''occurcountry''"
    using index_of_Some [OF i] by auto
  have len: "\<forall>r \<in> set (rows df). length r = length (columns df)"
    using wf by (simp add: list_all_iff)
  let ?mc = "\<lambda>r. map_code (cell_at r i)"
  have z: "zip (rows df) (map map_code codes) = map (\<lambda>r. (r, ?mc r)) (rows df)"
    using zip_map_same [of "rows df" ?mc] by (simp add: codes comp_def)
  have "\<exists>m. choropleth_data df = Inr m
      \<and> get_column m ''occurcountry'' =
          Inr (filter (\<lambda>c. map_code c \<noteq> NaN) (map (\<lambda>r. cell_at r i) (rows df)))
      \<and> get_column m ''iso_alpha'' =
          Inr (map map_code (filter (\<lambda>c. map_code c \<noteq> NaN)
            (map (\<lambda>r. cell_at r i) (rows df))))"
  proof (cases "index_of ''iso_alpha'' (columns df)")
    case None
    then have fresh: "''iso_alpha'' \<notin> set (columns df)"
      by (simp add: index_of_None)
    have m: "map_df df =
        Inr \<lparr>columns = columns df @ [''iso_alpha''], rows = map (\<lambda>r. r @ [?mc r]) (rows df)\<rparr>"
      by (simp add: map_df_def c assign_column_def None z comp_def)
    have new: "\<forall>r \<in> set (rows df). cell_at (r @ [?mc r]) (length (columns df)) = ?mc r"
      using len cell_at_snoc by metis
    have old: "\<forall>r \<in> set (rows df). cell_at (r @ [?mc r]) i = cell_at r i"
      using len b by (simp add: cell_at_snoc_old)
    show ?thesis
      using m index_of_fresh [OF fresh] index_of_append [OF i] new old
      by (rule choropleth_from_parts)
  next
    case (Some j)
    have j: "j < length (columns df)" and nj: "columns df ! j = ''iso_alpha''"
      using index_of_Some [OF Some] by auto
    have ij: "i \<noteq> j"
      using n nj by auto
    have m: "map_df df =
        Inr \<lparr>columns = columns df, rows = map (\<lambda>r. r[j := ?mc r]) (rows df)\<rparr>"
      by (simp add: map_df_def c assign_column_def Some z comp_def)
    have new: "\<forall>r \<in> set (rows df). cell_at (r[j := ?mc r]) j = ?mc r"
      using len j by (simp add: cell_at_update_same)
    have old: "\<forall>r \<in> set (rows df). cell_at (r[j := ?mc r]) i = cell_at r i"
      using ij by (simp add: cell_at_update_other)
    show ?thesis
      using m Some i new old by (rule choropleth_from_parts)
  qed
  then show ?thesis
    by (simp only: codes)
qed

lemma map_code_known:
  "map_of code_mapping s = Some t \<Longrightarrow> map_code (StrC s) = StrC t"
  by (simp add: map_code_def)

lemma map_code_unknown:
  "map_of code_mapping s = None \<Longrightarrow> map_code (StrC s) = NaN"
  by (simp add: map_code_def)

text \<open>
  Against claim C8 as stated. The heatmap table is cut to the first 15 rows, so a country
  code further down the table is not retained there: of a table of 17 countries, the
  16th code (in the country-code table) and the 17th (not in it) are both missing from the
  heatmap table.
\<close>

theorem heatmap_omits_rows_after_fifteenth:
  "get_column seventeen_countries ''occurcountry'' = Inr (map StrC sample_codes)
   \<and> heatmap_table seventeen_countries =
       Inr [Dataframe (map StrC (take 15 sample_codes))
              \<lparr>columns = [''report_count'', ''serious_reports'', ''fatal_reports''],
               rows = replicate 15 [IntC 5, IntC 2, IntC 0]\<rparr>]
   \<and> StrC ''KR'' \<in> set (map StrC sample_codes)
   \<and> StrC ''KR'' \<notin> set (map StrC (take 15 sample_codes))
   \<and> map_of code_mapping ''KR'' = Some ''KOR''
   \<and> StrC ''XX'' \<in> set (map StrC sample_codes)
   \<and> StrC ''XX'' \<notin> set (map StrC (take 15 sample_codes))
   \<and> map_of code_mapping ''XX'' = None"
  by code_simp

text \<open>
  Claim C8, amended. For a global-distribution table (rectangular, with the country column
  and the three report columns): the data set of the choropleth map holds exactly the rows
  whose country code is in the country-code table, each with the 3-letter code the table
  gives for it; rows whose code is not in the table are dropped from it; and the heatmap
  table is labelled with the country codes of the first 15 rows, whether or not they are in
  the country-code table.
\<close>

theorem country_codes_on_map_and_first_15_in_table:
  "(list_all (\<lambda>r. length r = length (columns df)) (rows df)
      \<and> {''report_count'', ''serious_reports'', ''fatal_reports''} \<subseteq> set (columns df)
      \<and> get_column df ''occurcountry'' = Inr codes \<longrightarrow>
    (\<exists>m shown.
       choropleth_data df = Inr m
       \<and> get_column m ''occurcountry'' = Inr (filter (\<lambda>c. map_code c \<noteq> NaN) codes)
       \<and> get_column m ''iso_alpha'' =
           Inr (map map_code (filter (\<lambda>c. map_code c \<noteq> NaN) codes))
       \<and> heatmap_table df = Inr [Dataframe (take 15 codes) shown]))
   \<and> (map_of code_mapping s = Some t \<longrightarrow> map_code (StrC s) = StrC t)
   \<and> (map_of code_mapping s = None \<longrightarrow> map_code (StrC s) = NaN)"
proof (intro conjI impI)
  assume a: "list_all (\<lambda>r. length r = length (columns df)) (rows df)
      \<and> {''report_count'', ''serious_reports'', ''fatal_reports''} \<subseteq> set (columns df)
      \<and> get_column df ''occurcountry'' = Inr codes"
  then obtain m where "choropleth_data df = Inr m
      \<and> get_column m ''occurcountry'' = Inr (filter (\<lambda>c. map_code c \<noteq> NaN) codes)
      \<and> get_column m ''iso_alpha'' =
          Inr (map map_code (filter (\<lambda>c. map_code c \<noteq> NaN) codes))"
    using choropleth_columns [of df codes] by blast
  moreover from a obtain shown where "heatmap_table df = Inr [Dataframe (take 15 codes) shown]"
    using heatmap_labels [of df codes] by blast
  ultimately show "\<exists>m shown.
       choropleth_data df = Inr m
       \<and> get_column m ''occurcountry'' = Inr (filter (\<lambda>c. map_code c \<noteq> NaN) codes)
       \<and> get_column m ''iso_alpha'' =
           Inr (map map_code (filter (\<lambda>c. map_code c \<noteq> NaN) codes))
       \<and> heatmap_table df = Inr [Dataframe (take 15 codes) shown]"
    by blast
next
  assume "map_of code_mapping s = Some t"
  then show "map_code (StrC s) = StrC t"
    by (rule map_code_known)
next
  assume "map_of code_mapping s = None"
  then show "map_code (StrC s) = NaN"
    by (rule map_code_unknown)
qed

theorem country_codes_on_map_and_first_15_in_table_witness:
  "list_all (\<lambda>r. length r = length (columns seventeen_countries)) (rows seventeen_countries)
   \<and> get_column seventeen_countries ''occurcountry'' = Inr (map StrC sample_codes)
   \<and> (\<exists>m shown.
       choropleth_data seventeen_countries = Inr m
       \<and> get_column m ''occurcountry'' = Inr (map StrC (take 16 sample_codes))
       \<and> get_column m ''iso_alpha'' =
           Inr (map StrC [''USA'', ''GBR'', ''CAN'', ''AUS'', ''DEU'', ''FRA'', ''JPN'', ''ITA'',
                          ''ESP'', ''BRA'', ''CHN'', ''IND'', ''MEX'', ''RUS'', ''ZAF'', ''KOR''])
       \<and> heatmap_table seventeen_countries =
           Inr [Dataframe (map StrC (take 15 sample_codes)) shown])
   \<and> map_of code_mapping ''KR'' = Some ''KOR''
   \<and> map_code (StrC ''KR'') = StrC ''KOR''
   \<and> map_of code_mapping ''XX'' = None
   \<and> map_code (StrC ''XX'') = NaN"
proof -
  have w: "list_all (\<lambda>r. length r = length (columns seventeen_countries))
      (rows seventeen_countries)"
    by code_simp
  have r: "{''report_count'', ''serious_reports'', ''fatal_reports''}
      \<subseteq> set (columns seventeen_countries)"
    by (simp add: seventeen_countries_def)
  have c: "get_column seventeen_countries ''occurcountry'' = Inr (map StrC sample_codes)"
    by code_simp
  have f: "filter (\<lambda>c. map_code c \<noteq> NaN) (map StrC sample_codes) =
      map StrC (take 16 sample_codes)"
    by code_simp
  have g: "map map_code (map StrC (take 16 sample_codes)) =
      map StrC [''USA'', ''GBR'', ''CAN'', ''AUS'', ''DEU'', ''FRA'', ''JPN'', ''ITA'',
                ''ESP'', ''BRA'', ''CHN'', ''IND'', ''MEX'', ''RUS'', ''ZAF'', ''KOR'']"
    by code_simp
  have t: "take 15 (map StrC sample_codes) = map StrC (take 15 sample_codes)"
    by (simp add: take_map)
  have kr: "map_of code_mapping ''KR'' = Some ''KOR''"
    by code_simp
  have xx: "map_of code_mapping ''XX'' = None"
    by code_simp
  note k = country_codes_on_map_and_first_15_in_table [of seventeen_countries
      "map StrC sample_codes" "''KR''" "''KOR''"]
  note x = country_codes_on_map_and_first_15_in_table [of seventeen_countries
      "map StrC sample_codes" "''XX''" "''KOR''"]
  from k w r c have "\<exists>m shown.
       choropleth_data seventeen_countries = Inr m
       \<and> get_column m ''occurcountry'' =
           Inr (filter (\<lambda>c. map_code c \<noteq> NaN) (map StrC sample_codes))
       \<and> get_column m ''iso_alpha'' =
           Inr (map map_code (filter (\<lambda>c. map_code c \<noteq> NaN) (map StrC sample_codes)))
       \<and> heatmap_table seventeen_countries =
           Inr [Dataframe (take 15 (map StrC sample_codes)) shown]"
    by blast
  then have e: "\<exists>m shown.
       choropleth_data seventeen_countries = Inr m
       \<and> get_column m ''occurcountry'' = Inr (map StrC (take 16 sample_codes))
       \<and> get_column m ''iso_alpha'' =
           Inr (map StrC [''USA'', ''GBR'', ''CAN'', ''AUS'', ''DEU'', ''FRA'', ''JPN'', ''ITA'',
                          ''ESP'', ''BRA'', ''CHN'', ''IND'', ''MEX'', ''RUS'', ''ZAF'', ''KOR''])
       \<and> heatmap_table seventeen_countries =
           Inr [Dataframe (map StrC (take 15 sample_codes)) shown]"
    by (simp only: f g t)
  from k kr have mk: "map_code (StrC ''KR'') = StrC ''KOR''"
    by blast
  from x xx have mx: "map_code (StrC ''XX'') = NaN"
    by blast
  from w c e kr mk xx mx show ?thesis
    by blast
qed

end
